theory Spec2Isabelle
  imports Complex_Main "HOL-Library.Code_Target_Numeral"
begin

section \<open>Document upload page: \<open>DocumentUploader\<close> (static/js/upload.js)\<close>

text \<open>
  A browser \<open>File\<close> as far as the uploader reads it: its name, its MIME type and its
  size in bytes.
\<close>

record upload_file =
  file_name :: string
  file_type :: string
  file_size :: nat

text \<open>The messages the uploader passes to \<open>showError\<close>.\<close>

datatype upload_message =
    NotPdf string
  | TooLarge string
  | MaxFilesExceeded nat

text \<open>
  The fields of the class that \<open>processFiles\<close> reads or writes. \<open>shown\<close> collects the
  \<open>showError\<close> calls in order.
\<close>

record DocumentUploader =
  uploadedFiles :: "upload_file list"
  documentType :: string
  maxFileSize :: nat
  maxFiles :: nat
  isClearingFiles :: bool
  shown :: "upload_message list"

definition DocumentUploader_constructor :: DocumentUploader where
  "DocumentUploader_constructor =
     \<lparr> uploadedFiles = [],
       documentType = ''salary_slip_single'',
       maxFileSize = 10 * 1024 * 1024,
       maxFiles = 4,
       isClearingFiles = False,
       shown = [] \<rparr>"

text \<open>\<open>String.prototype.includes\<close> (\<open>str_includes\<close>): the argument occurs somewhere in the string.\<close>

fun str_includes :: "string \<Rightarrow> string \<Rightarrow> bool" where
  "str_includes [] sub = (sub = [])"
| "str_includes (c # cs) sub = (take (length sub) (c # cs) = sub \<or> str_includes cs sub)"

text \<open>
  \<open>validateFile\<close> returns whether the file is accepted, together with the error it
  shows when it is not.
\<close>

definition validateFile :: "DocumentUploader \<Rightarrow> upload_file \<Rightarrow> bool \<times> upload_message list" where
  "validateFile u f =
     (if \<not> str_includes (file_type f) ''pdf'' then (False, [NotPdf (file_name f)])
      else if file_size f > maxFileSize u then (False, [TooLarge (file_name f)])
      else (True, []))"

text \<open>
  \<open>processFiles\<close>, up to the point where the file list is final. What follows in the
  source (the password check over the network and the refresh of the process button) does
  not write \<open>uploadedFiles\<close>.
\<close>

definition processFiles :: "upload_file list \<Rightarrow> DocumentUploader \<Rightarrow> DocumentUploader" where
  "processFiles files u =
     (if isClearingFiles u then u
      else
        let validFiles = filter (\<lambda>f. fst (validateFile u f)) files;
            u1 = u\<lparr>shown := shown u @ concat (map (\<lambda>f. snd (validateFile u f)) files)\<rparr>
        in if documentType u1 = ''salary_slip_multiple'' then
             let u2 = u1\<lparr>uploadedFiles := uploadedFiles u1 @ validFiles\<rparr>
             in if length (uploadedFiles u2) > maxFiles u2
                then u2\<lparr>uploadedFiles := take (maxFiles u2) (uploadedFiles u2),
                        shown := shown u2 @ [MaxFilesExceeded (maxFiles u2)]\<rparr>
                else u2
           else u1\<lparr>uploadedFiles := take 1 validFiles\<rparr>)"

text \<open>
  The other methods that write the file list, the mode or the clearing flag.
  \<open>removeFile\<close> is \<open>splice(index, 1)\<close> at a list index; \<open>clearFiles\<close> raises the flag and a
  timer lowers it 100 ms later (\<open>clearFiles_timeout\<close>); the change handler of the
  document-type radio buttons stores the new type and clears the files.
\<close>

definition removeFile :: "nat \<Rightarrow> DocumentUploader \<Rightarrow> DocumentUploader" where
  "removeFile i u = u\<lparr>uploadedFiles := take i (uploadedFiles u) @ drop (Suc i) (uploadedFiles u)\<rparr>"

definition clearSingleFile :: "DocumentUploader \<Rightarrow> DocumentUploader" where
  "clearSingleFile u = u\<lparr>uploadedFiles := []\<rparr>"

definition clearFiles :: "DocumentUploader \<Rightarrow> DocumentUploader" where
  "clearFiles u = u\<lparr>isClearingFiles := True, uploadedFiles := []\<rparr>"

definition clearFiles_timeout :: "DocumentUploader \<Rightarrow> DocumentUploader" where
  "clearFiles_timeout u = u\<lparr>isClearingFiles := False\<rparr>"

definition documentTypeChange :: "string \<Rightarrow> DocumentUploader \<Rightarrow> DocumentUploader" where
  "documentTypeChange v u = clearFiles (u\<lparr>documentType := v\<rparr>)"

text \<open>The states an uploader can be in: the constructor's state and every state an event
  handler leaves behind.\<close>

inductive uploader_reachable :: "DocumentUploader \<Rightarrow> bool" where
  constructed: "uploader_reachable DocumentUploader_constructor"
| processed: "uploader_reachable u \<Longrightarrow> uploader_reachable (processFiles files u)"
| removed: "uploader_reachable u \<Longrightarrow> uploader_reachable (removeFile i u)"
| single_cleared: "uploader_reachable u \<Longrightarrow> uploader_reachable (clearSingleFile u)"
| cleared: "uploader_reachable u \<Longrightarrow> uploader_reachable (clearFiles u)"
| timeout: "uploader_reachable u \<Longrightarrow> uploader_reachable (clearFiles_timeout u)"
| type_changed: "uploader_reachable u \<Longrightarrow> uploader_reachable (documentTypeChange v u)"

definition is_pdf_within_limit :: "upload_file \<Rightarrow> bool" where
  "is_pdf_within_limit f = (str_includes (file_type f) ''pdf'' \<and> file_size f \<le> 10485760)"

definition uploader_inv :: "DocumentUploader \<Rightarrow> bool" where
  "uploader_inv u =
     (maxFiles u = 4 \<and> maxFileSize u = 10485760 \<and>
      length (uploadedFiles u) \<le> (if documentType u = ''salary_slip_multiple'' then 4 else 1) \<and>
      list_all is_pdf_within_limit (uploadedFiles u))"

text \<open>Sample uploads used to exercise the uploader.\<close>

definition sample_upload :: "string \<Rightarrow> string \<Rightarrow> nat \<Rightarrow> upload_file" where
  "sample_upload n t s = \<lparr> file_name = n, file_type = t, file_size = s \<rparr>"

definition sample_uploads :: "upload_file list" where
  "sample_uploads =
     [sample_upload ''jan.pdf'' ''application/pdf'' 1000,
      sample_upload ''scan.png'' ''image/png'' 2000,
      sample_upload ''feb.pdf'' ''application/pdf'' 10485760,
      sample_upload ''big.pdf'' ''application/pdf'' 10485761,
      sample_upload ''mar.pdf'' ''application/pdf'' 3000,
      sample_upload ''apr.pdf'' ''application/x-pdf'' 4000,
      sample_upload ''may.pdf'' ''application/pdf'' 5000]"

definition multiple_mode_uploader :: DocumentUploader where
  "multiple_mode_uploader =
     clearFiles_timeout (documentTypeChange ''salary_slip_multiple'' DocumentUploader_constructor)"

section \<open>AI advisor page: \<open>AIAdvisor\<close> (the conversation controller of the front end)\<close>

text \<open>
  JavaScript's \<open>String.prototype.trim\<close> on the ASCII white space characters (tab, line
  feed, vertical tab, form feed, carriage return, space). Strings are modelled as ASCII
  strings throughout.
\<close>

definition is_js_space :: "char \<Rightarrow> bool" where
  "is_js_space c = (c \<in> set [CHR 0x09, CHR 0x0A, CHR 0x0B, CHR 0x0C, CHR 0x0D, CHR '' ''])"

definition trim_start :: "string \<Rightarrow> string" where
  "trim_start s = dropWhile is_js_space s"

definition trim :: "string \<Rightarrow> string" where
  "trim s = rev (dropWhile is_js_space (rev (dropWhile is_js_space s)))"

text \<open>
  What \<open>await fetch(...)\<close> followed by \<open>await response.json()\<close> hands to the caller:
  either one of the two rejects (\<open>Rejected\<close>), or there is a response with its \<open>ok\<close> flag
  and its decoded body.
\<close>

datatype 'a fetch_result = Rejected | Response bool 'a

text \<open>The fields the advisor reads from the two replies of the advisory service.\<close>

record start_data =
  start_success :: bool
  start_round :: int
  start_question :: string

record process_data =
  success :: bool
  is_final :: bool
  round :: int
  question :: string

text \<open>What the page shows: the panels that \<open>displayQuestion\<close>, \<open>showProcessingScreen\<close>,
  \<open>displayRecommendations\<close> and \<open>showError\<close> switch between.\<close>

datatype advisor_view =
    Blank
  | QuestionCard string int
  | Generating
  | ErrorBanner string

record AIAdvisor =
  sessionId :: "string option"
  currentRound :: int
  maxRounds :: int
  isProcessing :: bool
  conversationStarted :: bool
  view :: advisor_view

definition service_unavailable :: string where
  "service_unavailable = ''AI Advisor service is temporarily unavailable. Please try again later.''"

text \<open>The field initialisers of the constructor, before it calls \<open>startConversation\<close>.\<close>

definition AIAdvisor_fields :: AIAdvisor where
  "AIAdvisor_fields =
     \<lparr> sessionId = None, currentRound = 1, maxRounds = 4, isProcessing = False,
       conversationStarted = False, view = Blank \<rparr>"

text \<open>
  \<open>startConversation\<close>. The first argument is what \<open>getSessionId\<close> finds (\<open>None\<close> for
  \<open>null\<close>), the second the service's reply. An empty session id is falsy like \<open>null\<close>.
\<close>

definition startConversation :: "string option \<Rightarrow> start_data fetch_result \<Rightarrow> AIAdvisor \<Rightarrow> AIAdvisor" where
  "startConversation sid reply a =
     (let a1 = a\<lparr>sessionId := sid\<rparr>
      in if sid = None \<or> sid = Some [] then
           a1\<lparr>view := ErrorBanner ''Session ID not found. Please start from the tax results page.''\<rparr>
         else
           (case reply of
              Rejected \<Rightarrow> a1\<lparr>view := ErrorBanner service_unavailable\<rparr>
            | Response ok d \<Rightarrow>
                if \<not> ok then a1\<lparr>view := ErrorBanner service_unavailable\<rparr>
                else if start_success d then
                  a1\<lparr>conversationStarted := True, currentRound := start_round d,
                     view := QuestionCard (start_question d) (start_round d)\<rparr>
                else a1\<lparr>view := ErrorBanner service_unavailable\<rparr>))"

definition AIAdvisor_constructor :: "string option \<Rightarrow> start_data fetch_result \<Rightarrow> AIAdvisor" where
  "AIAdvisor_constructor sid reply = startConversation sid reply AIAdvisor_fields"

text \<open>
  \<open>submitUserResponse\<close>, with the text of the response box and the service's reply as
  arguments. The method runs in one piece here: while it waits for the reply the flag
  \<open>isProcessing\<close> is set, so a second call started meanwhile returns at once, and the
  \<open>finally\<close> block lowers the flag again.
\<close>

definition submitUserResponse :: "string \<Rightarrow> process_data fetch_result \<Rightarrow> AIAdvisor \<Rightarrow> AIAdvisor" where
  "submitUserResponse userResponse reply a =
     (if isProcessing a then a
      else if trim userResponse = [] then a
      else
        (case reply of
           Rejected \<Rightarrow> a\<lparr>view := ErrorBanner service_unavailable\<rparr>
         | Response ok d \<Rightarrow>
             if \<not> ok then a\<lparr>view := ErrorBanner service_unavailable\<rparr>
             else if success d then
               (if is_final d then a\<lparr>view := Generating\<rparr>
                else a\<lparr>currentRound := round d, view := QuestionCard (question d) (round d)\<rparr>)
             else a\<lparr>view := ErrorBanner service_unavailable\<rparr>)
        \<lparr>isProcessing := False\<rparr>)"

text \<open>
  A response is accepted when the controller sends it and the service answers with the
  next question: the controller is idle, the text is not blank, and the reply is a
  successful, non-final one.
\<close>

fun accepted :: "AIAdvisor \<Rightarrow> string \<Rightarrow> process_data fetch_result \<Rightarrow> bool" where
  "accepted a userResponse (Response ok d) =
     (\<not> isProcessing a \<and> trim userResponse \<noteq> [] \<and> ok \<and> success d \<and> \<not> is_final d)"
| "accepted a userResponse Rejected = False"

text \<open>
  The service follows the rounds when every next question it sends for the controller's
  round \<open>r\<close> carries the round number \<open>r + 1\<close> and that number is within \<open>maxRounds\<close>
  (so the answer to the last round is final or a failure).
\<close>

fun follows_rounds :: "AIAdvisor \<Rightarrow> process_data fetch_result \<Rightarrow> bool" where
  "follows_rounds a (Response ok d) =
     (ok \<and> success d \<and> \<not> is_final d \<longrightarrow> round d = currentRound a + 1 \<and> round d \<le> maxRounds a)"
| "follows_rounds a Rejected = True"

text \<open>A conversation: the responses submitted one after the other, each with its reply.\<close>

fun conversation :: "AIAdvisor \<Rightarrow> (string \<times> process_data fetch_result) list \<Rightarrow> AIAdvisor" where
  "conversation a [] = a"
| "conversation a ((text, reply) # rest) = conversation (submitUserResponse text reply a) rest"

fun service_follows_rounds :: "AIAdvisor \<Rightarrow> (string \<times> process_data fetch_result) list \<Rightarrow> bool" where
  "service_follows_rounds a [] = True"
| "service_follows_rounds a ((text, reply) # rest) =
     (follows_rounds a reply \<and> service_follows_rounds (submitUserResponse text reply a) rest)"

definition next_question :: "int \<Rightarrow> process_data fetch_result" where
  "next_question r = Response True \<lparr> success = True, is_final = False, round = r, question = ''Next?'' \<rparr>"

definition final_reply :: "process_data fetch_result" where
  "final_reply = Response True \<lparr> success = True, is_final = True, round = 4, question = [] \<rparr>"

definition started_advisor :: AIAdvisor where
  "started_advisor =
     AIAdvisor_constructor (Some ''s-1'')
       (Response True \<lparr> start_success = True, start_round = 1, start_question = ''First?'' \<rparr>)"

section \<open>JavaScript numbers and the parsers of the review form\<close>

text \<open>
  A JavaScript number as the form code meets it: not-a-number, a finite double or one of
  the infinities. A finite double is given by its exact rational value; the two zeros are
  one value, which no comparison and no truth test of the form code tells apart.
\<close>

datatype jsnum = NaN | Num rat | PosInf | NegInf

fun js_lt :: "jsnum \<Rightarrow> jsnum \<Rightarrow> bool" where
  "js_lt (Num a) (Num b) = (a < b)"
| "js_lt (Num a) PosInf = True"
| "js_lt NegInf (Num b) = True"
| "js_lt NegInf PosInf = True"
| "js_lt _ _ = False"

definition js_gt :: "jsnum \<Rightarrow> jsnum \<Rightarrow> bool" where
  "js_gt a b = js_lt b a"

fun js_le :: "jsnum \<Rightarrow> jsnum \<Rightarrow> bool" where
  "js_le NaN _ = False"
| "js_le _ NaN = False"
| "js_le a b = (a = b \<or> js_lt a b)"

text \<open>A number is falsy when it is not-a-number or zero; \<open>x || 0\<close> is \<open>or_zero x\<close>.\<close>

definition falsy_num :: "jsnum \<Rightarrow> bool" where
  "falsy_num x = (x = NaN \<or> x = Num 0)"

definition or_zero :: "jsnum \<Rightarrow> jsnum" where
  "or_zero x = (if falsy_num x then Num 0 else x)"

definition is_digit :: "char \<Rightarrow> bool" where
  "is_digit c = (c \<in> set ''0123456789'')"

definition is_hex_digit :: "char \<Rightarrow> bool" where
  "is_hex_digit c = (c \<in> set ''0123456789abcdefABCDEF'')"

definition digit_value :: "char \<Rightarrow> nat" where
  "digit_value c =
     (if is_digit c then of_char c - 48
      else if c \<in> set ''abcdef'' then of_char c - 87
      else of_char c - 55)"

definition digits_value :: "nat \<Rightarrow> string \<Rightarrow> nat" where
  "digits_value radix ds = foldl (\<lambda>acc c. acc * radix + digit_value c) 0 ds"

definition split_sign :: "string \<Rightarrow> bool \<times> string" where
  "split_sign s =
     (case s of
        [] \<Rightarrow> (False, s)
      | c # r \<Rightarrow> if c = CHR ''-'' then (True, r) else if c = CHR ''+'' then (False, r) else (False, s))"

subsection \<open>Rounding to a double\<close>

text \<open>The number of binary digits of a natural number.\<close>

fun bit_length :: "nat \<Rightarrow> nat" where
  "bit_length n = (if n = 0 then 0 else Suc (bit_length (n div 2)))"

declare bit_length.simps [simp del]

text \<open>The integer nearest to \<open>num / den\<close>, the even one of the two when it lies half way.\<close>

definition round_half_even :: "nat \<Rightarrow> nat \<Rightarrow> nat" where
  "round_half_even num den =
     (let d = num div den; r = num mod den
      in if 2 * r < den then d
         else if den < 2 * r then d + 1
         else if even d then d else d + 1)"

definition pow2 :: "int \<Rightarrow> rat" where
  "pow2 t = (if 0 \<le> t then 2 ^ nat t else 1 / 2 ^ nat (- t))"

text \<open>
  The double nearest to the fraction \<open>p / q\<close> (with \<open>q\<close> positive), ties to the even
  significand, as IEEE 754 binary64 rounds: \<open>e\<close> is the binary exponent of the fraction,
  held at -1022 for the subnormal range, the significand \<open>n\<close> has 53 bits and counts
  units of \<open>2 ^ (e - 52)\<close>, and a result of \<open>2 ^ 1024\<close> or more is infinite.
\<close>

definition to_double :: "nat \<Rightarrow> nat \<Rightarrow> jsnum" where
  "to_double p q =
     (if p = 0 then Num 0
      else
        let e0 = int (bit_length p) - int (bit_length q);
            e = (if (if 0 \<le> e0 then 2 ^ nat e0 * q \<le> p else q \<le> 2 ^ nat (- e0) * p)
                 then e0 else e0 - 1);
            t = max e (- 1022) - 52;
            n = (if 0 \<le> t then round_half_even p (q * 2 ^ nat t)
                 else round_half_even (p * 2 ^ nat (- t)) q)
        in if 1024 \<le> e \<or> (e = 1023 \<and> n = 2 ^ 53) then PosInf
           else Num (of_nat n * pow2 t))"

fun js_negate :: "jsnum \<Rightarrow> jsnum" where
  "js_negate NaN = NaN"
| "js_negate (Num x) = Num (- x)"
| "js_negate PosInf = NegInf"
| "js_negate NegInf = PosInf"

subsection \<open>\<open>parseFloat\<close> and \<open>parseInt\<close>\<close>

text \<open>The exponent part after the mantissa: \<open>e\<close> or \<open>E\<close>, an optional sign and at least one
  digit; anything else is not part of the number.\<close>

definition exponent_part :: "string \<Rightarrow> int" where
  "exponent_part s =
     (case s of
        [] \<Rightarrow> 0
      | c # r \<Rightarrow>
          if c = CHR ''e'' \<or> c = CHR ''E'' then
            (let (neg, d) = split_sign r; ds = takeWhile is_digit d
             in if ds = [] then 0
                else if neg then - int (digits_value 10 ds) else int (digits_value 10 ds))
          else 0)"

text \<open>
  \<open>parseFloat\<close>: leading white space is skipped, then the longest prefix that is a decimal
  literal (sign, digits, fraction, exponent, or \<open>Infinity\<close>) is read; without one the
  result is \<open>NaN\<close>. The literal's value, its digits times a power of ten, is rounded to
  the nearest double.
\<close>

definition parseFloat :: "string \<Rightarrow> jsnum" where
  "parseFloat s =
     (let (neg, u) = split_sign (trim_start s)
      in if take 8 u = ''Infinity'' then (if neg then NegInf else PosInf)
         else
           let ip = takeWhile is_digit u;
               r1 = dropWhile is_digit u;
               (fp, r2) = (case r1 of
                             [] \<Rightarrow> ([], [])
                           | c # r \<Rightarrow> if c = CHR ''.''
                                      then (takeWhile is_digit r, dropWhile is_digit r)
                                      else ([], r1))
           in if ip = [] \<and> fp = [] then NaN
              else
                let m = digits_value 10 (ip @ fp);
                    e10 = exponent_part r2 - int (length fp);
                    magnitude = (if 0 \<le> e10 then to_double (m * 10 ^ nat e10) 1
                                 else to_double m (10 ^ nat (- e10)))
                in if neg then js_negate magnitude else magnitude)"

text \<open>
  \<open>parseInt\<close> without a radix: white space and sign as above, a prefix \<open>0x\<close> or \<open>0X\<close>
  selects base 16, then the longest run of digits of the base is read; without one the
  result is \<open>NaN\<close>. The integer read is rounded to the nearest double.
\<close>

definition parseInt :: "string \<Rightarrow> jsnum" where
  "parseInt s =
     (let (neg, u) = split_sign (trim_start s);
          hex = (take 2 u = ''0x'' \<or> take 2 u = ''0X'');
          ds = (if hex then takeWhile is_hex_digit (drop 2 u) else takeWhile is_digit u)
      in if ds = [] then NaN
         else
           let magnitude = to_double (digits_value (if hex then 16 else 10) ds) 1
           in if neg then js_negate magnitude else magnitude)"

text \<open>The regular expression \<open>/^\d{4}-\d{2}$/\<close>: four digits, a hyphen, two digits and nothing
  else.\<close>

definition fyPattern_test :: "string \<Rightarrow> bool" where
  "fyPattern_test s =
     (case s of
        [a, b, c, d, h, e, f] \<Rightarrow>
          is_digit a \<and> is_digit b \<and> is_digit c \<and> is_digit d \<and> h = CHR ''-''
          \<and> is_digit e \<and> is_digit f
      | _ \<Rightarrow> False)"

section \<open>Review form page: \<open>FinancialDataReview\<close> (static/js/review_form.js)\<close>

subsection \<open>The part of the document the form code touches\<close>

text \<open>
  The page's HTML is not among the sources, so the document is a parameter: the inputs
  of the form in document order. Each input carries its id, its name, its value, its class
  list and, when it has one, its enclosing \<open>.form-field\<close> element (what
  \<open>field.closest('.form-field')\<close> returns), modelled as the input's own. A \<open>.form-field\<close>
  carries its class list and, when it has one, its \<open>.field-help\<close> element with its text and
  its \<open>style.color\<close>.
\<close>

record help_text =
  textContent :: string
  color :: string

record form_field =
  field_classes :: "string list"
  field_help :: "help_text option"

record form_input =
  input_id :: string
  input_name :: string
  input_value :: string
  input_classes :: "string list"
  formField :: "form_field option"

datatype js_error = TypeError

definition classList_remove :: "string list \<Rightarrow> string list \<Rightarrow> string list" where
  "classList_remove names cs = filter (\<lambda>c. c \<notin> set names) cs"

definition classList_add :: "string \<Rightarrow> string list \<Rightarrow> string list" where
  "classList_add n cs = (if n \<in> set cs then cs else cs @ [n])"

text \<open>
  Assigning to \<open>style.color\<close>: the browser keeps a colour in its serialised form, so the
  hexadecimal \<open>#dc3545\<close> reads back as \<open>rgb(220, 53, 69)\<close> (0xdc = 220, 0x35 = 53,
  0x45 = 69), which is the string \<open>showValidationMessages\<close> compares with. The form code
  assigns only this colour and the empty string.
\<close>

definition style_color :: "string \<Rightarrow> string" where
  "style_color v = (if v = ''#dc3545'' then ''rgb(220, 53, 69)'' else v)"

definition getElementById :: "form_input list \<Rightarrow> string \<Rightarrow> form_input option" where
  "getElementById doc i = find (\<lambda>e. input_id e = i) doc"

text \<open>\<open>querySelector('[name="..."]')\<close>: the first input with the name.\<close>

definition querySelector_name :: "form_input list \<Rightarrow> string \<Rightarrow> form_input option" where
  "querySelector_name doc n = find (\<lambda>e. input_name e = n) doc"

text \<open>Writing an element back after a method has changed it: the first input with the id
  is replaced.\<close>

fun replace_input :: "form_input \<Rightarrow> form_input list \<Rightarrow> form_input list" where
  "replace_input f [] = []"
| "replace_input f (e # es) = (if input_id e = input_id f then f # es else e # replace_input f es)"

text \<open>\<open>querySelectorAll('.form-field.error')\<close>: the form fields that carry the class
  \<open>error\<close>.\<close>

definition errorFields :: "form_input list \<Rightarrow> form_field list" where
  "errorFields doc =
     concat (map (\<lambda>e. case formField e of
                          None \<Rightarrow> []
                        | Some ff \<Rightarrow> if ''error'' \<in> set (field_classes ff) then [ff] else []) doc)"

subsection \<open>\<open>validateField\<close>\<close>

text \<open>The rupee sign of the messages, as its three UTF-8 bytes.\<close>

definition rupee :: string where
  "rupee = [CHR 0xE2, CHR 0x82, CHR 0xB9]"

text \<open>
  The \<open>switch\<close> over the field's name: whether the value is valid and, if not, the
  message. The case of \<open>basic_salary\<close> reads the element with the id \<open>grossSalary\<close> and
  fails with a \<open>TypeError\<close> when the document has none.
\<close>

definition field_rule ::
  "form_input list \<Rightarrow> string \<Rightarrow> string \<Rightarrow> jsnum \<Rightarrow> js_error + bool \<times> string" where
  "field_rule doc fieldName raw v =
     (if fieldName = ''age'' then
        Inr (if js_lt v (Num 18) \<or> js_gt v (Num 100)
             then (False, ''Age must be between 18 and 100 years'') else (True, []))
      else if fieldName = ''financial_year'' then
        Inr (if \<not> fyPattern_test raw
             then (False, ''Financial year must be in format YYYY-YY'') else (True, []))
      else if fieldName = ''gross_salary'' then
        Inr (if js_lt v (Num 300000)
             then (False, ''Gross salary seems too low for salaried employee'') else (True, []))
      else if fieldName = ''basic_salary'' then
        (case getElementById doc ''grossSalary'' of
           None \<Rightarrow> Inl TypeError
         | Some g \<Rightarrow>
             let grossSalary = or_zero (parseFloat (input_value g))
             in Inr (if js_gt v grossSalary
                     then (False, ''Basic salary cannot be greater than gross salary'')
                     else (True, [])))
      else if fieldName = ''deduction_80c'' then
        Inr (if js_gt v (Num 150000)
             then (False, ''80C deduction cannot exceed '' @ rupee @ ''1,50,000'') else (True, []))
      else if fieldName = ''deduction_80d'' then
        Inr (if js_gt v (Num 25000)
             then (False, ''80D deduction cannot exceed '' @ rupee @ ''25,000'') else (True, []))
      else if fieldName = ''deduction_80dd'' then
        Inr (if js_gt v (Num 125000)
             then (False, ''80DD deduction cannot exceed '' @ rupee @ ''1,25,000'') else (True, []))
      else if fieldName = ''deduction_80e'' then
        Inr (if js_gt v (Num 40000)
             then (False, ''80E deduction cannot exceed '' @ rupee @ ''40,000'') else (True, []))
      else if fieldName = ''deduction_80tta'' then
        Inr (if js_gt v (Num 10000)
             then (False, ''80TTA deduction cannot exceed '' @ rupee @ ''10,000'') else (True, []))
      else if fieldName = ''home_loan_interest'' then
        Inr (if js_gt v (Num 200000)
             then (False, ''Home loan interest cannot exceed '' @ rupee @ ''2,00,000'')
             else (True, []))
      else Inr (True, []))"

definition set_help :: "string \<Rightarrow> string \<Rightarrow> form_field \<Rightarrow> form_field" where
  "set_help t c ff =
     ff\<lparr>field_help := map_option (\<lambda>h. h\<lparr>textContent := t, color := style_color c\<rparr>) (field_help ff)\<rparr>"

definition add_class :: "string \<Rightarrow> form_input \<Rightarrow> form_input" where
  "add_class n f =
     f\<lparr>input_classes := classList_add n (input_classes f),
       formField := map_option (\<lambda>ff. ff\<lparr>field_classes := classList_add n (field_classes ff)\<rparr>)
                      (formField f)\<rparr>"

text \<open>
  \<open>validateField\<close> returns the field as the call leaves it, and either the value it returns
  or the exception it throws. The classes \<open>error\<close> and \<open>success\<close> are removed first. A
  valid field gets the class \<open>success\<close>, on its form field as well, and its help text is
  cleared. An invalid field gets the class \<open>error\<close>, on its form field as well; the method
  then looks the help text up on the form field without checking that there is one, which
  throws when the input has no form field.
\<close>

definition validateField :: "form_input list \<Rightarrow> form_input \<Rightarrow> form_input \<times> (js_error + bool)" where
  "validateField doc field =
     (let v = or_zero (parseFloat (input_value field));
          f1 = field\<lparr>input_classes := classList_remove [''error'', ''success''] (input_classes field),
                     formField := map_option
                       (\<lambda>ff. ff\<lparr>field_classes :=
                                  classList_remove [''error'', ''success''] (field_classes ff)\<rparr>)
                       (formField field)\<rparr>
      in case field_rule doc (input_name field) (input_value field) v of
           Inl e \<Rightarrow> (f1, Inl e)
         | Inr (isValid, errorMessage) \<Rightarrow>
             if isValid then
               (let f2 = add_class ''success'' f1
                in (f2\<lparr>formField := map_option (set_help [] []) (formField f2)\<rparr>, Inr True))
             else
               (let f2 = add_class ''error'' f1
                in case formField f2 of
                     None \<Rightarrow> (f2, Inl TypeError)
                   | Some ff \<Rightarrow>
                       (f2\<lparr>formField := Some (set_help errorMessage ''#dc3545'' ff)\<rparr>, Inr False)))"

subsection \<open>The page object and its validation summary\<close>

text \<open>A value of the objects the page builds or reads: \<open>null\<close>, a boolean, a number or a
  string.\<close>

datatype jsval = JNull | JBool bool | JNumber jsnum | JString string

text \<open>What the page does to the outside, in order: a POST with its URL and body, an error
  notification (\<open>showError\<close>), a success notification (\<open>showSuccessMessage\<close>), a write
  of the session id to the session storage, a navigation, and a navigation scheduled after
  a delay in milliseconds.\<close>

datatype page_effect =
    Post string "(string \<times> jsval) list"
  | ErrorNotification string
  | SuccessNotification string
  | SessionStored string
  | Navigate string
  | NavigateAfter nat string

text \<open>
  The page object with the elements its methods look up: the inputs, the submit button
  (its \<open>disabled\<close> flag), the element \<open>validationMessages\<close> (its \<open>style.display\<close>) and the
  element \<open>validationList\<close> (its list items); \<open>None\<close> stands for an element the document
  does not have. \<open>review_sessionId\<close> is the field \<open>sessionId\<close>, \<open>None\<close> for \<open>null\<close>. The
  form element itself is taken to exist and to contain the inputs.
\<close>

record FinancialDataReview =
  review_sessionId :: "string option"
  inputs :: "form_input list"
  submitButton_disabled :: "bool option"
  validationMessages_display :: "string option"
  validationList_items :: "string list option"
  effects :: "page_effect list"

text \<open>The methods the class \<open>FinancialDataReview\<close> defines. It extends no other class, so
  calling any other name on the object throws a \<open>TypeError\<close>.\<close>

definition FinancialDataReview_methods :: "string list" where
  "FinancialDataReview_methods =
     [''constructor'', ''initializeForm'', ''addInputValidation'', ''loadData'',
      ''checkForDraft'', ''populateForm'', ''showProcessingSummary'', ''formatDocumentType'',
      ''formatAccuracy'', ''validateField'', ''clearFieldError'', ''refreshValidation'',
      ''updateFormValidation'', ''showValidationMessages'', ''getFieldLabel'', ''saveDraft'',
      ''submitForm'', ''getFormData'', ''showSuccessMessage'', ''showError'',
      ''initializeEventListeners'']"

definition getFieldLabel :: "string \<Rightarrow> string" where
  "getFieldLabel fieldName =
     (case map_of
        [(''gross_salary'', ''Gross Salary''), (''basic_salary'', ''Basic Salary''),
         (''hra_received'', ''HRA Received''), (''rent_paid'', ''Rent Paid''),
         (''deduction_80c'', ''80C Deduction''), (''deduction_80d'', ''80D Deduction''),
         (''professional_tax'', ''Professional Tax''), (''tds'', ''TDS'')] fieldName of
        None \<Rightarrow> fieldName
      | Some label \<Rightarrow> if label = [] then fieldName else label)"

text \<open>
  \<open>updateFormValidation\<close>: the submit button is disabled when a required field that
  exists is empty or not positive, or when some form field carries the class \<open>error\<close>.
  The result is the exception thrown, if any.
\<close>

definition updateFormValidation :: "FinancialDataReview \<Rightarrow> FinancialDataReview \<times> js_error option" where
  "updateFormValidation pg =
     (let isValid =
            (\<not> list_ex (\<lambda>fieldName.
                   case querySelector_name (inputs pg) fieldName of
                     None \<Rightarrow> False
                   | Some field \<Rightarrow>
                       input_value field = [] \<or> js_le (parseFloat (input_value field)) (Num 0))
                 [''financial_year'', ''age'', ''gross_salary'', ''basic_salary'']
             \<and> errorFields (inputs pg) = [])
      in case submitButton_disabled pg of
           None \<Rightarrow> (pg, Some TypeError)
         | Some d \<Rightarrow> (pg\<lparr>submitButton_disabled := Some (\<not> isValid)\<rparr>, None))"

text \<open>
  The errors \<open>showValidationMessages\<close> collects: the help texts of the form fields in
  error whose help text exists and has the error colour, then a message for each of
  \<open>gross_salary\<close> and \<open>basic_salary\<close> that is missing or blank.
\<close>

definition collect_errors :: "form_input list \<Rightarrow> string list" where
  "collect_errors doc =
     concat (map (\<lambda>ff. case field_help ff of
                          None \<Rightarrow> []
                        | Some helpText \<Rightarrow>
                            if color helpText = ''rgb(220, 53, 69)'' then [textContent helpText]
                            else [])
                 (errorFields doc))
     @ concat (map (\<lambda>fieldName.
                      case querySelector_name doc fieldName of
                        None \<Rightarrow> [getFieldLabel fieldName @ '' is required'']
                      | Some field \<Rightarrow>
                          if trim (input_value field) = []
                          then [getFieldLabel fieldName @ '' is required''] else [])
                   [''gross_salary'', ''basic_salary''])"

text \<open>\<open>showValidationMessages\<close> returns \<open>false\<close> after listing the errors, \<open>true\<close> after
  hiding the list when there is none, and throws when an element it writes is missing.\<close>

definition showValidationMessages :: "FinancialDataReview \<Rightarrow> FinancialDataReview \<times> (js_error + bool)" where
  "showValidationMessages pg =
     (let errors = collect_errors (inputs pg)
      in if errors \<noteq> [] then
           (case validationList_items pg of
              None \<Rightarrow> (pg, Inl TypeError)
            | Some old \<Rightarrow>
                let pg1 = pg\<lparr>validationList_items := Some errors\<rparr>
                in case validationMessages_display pg1 of
                     None \<Rightarrow> (pg1, Inl TypeError)
                   | Some d \<Rightarrow> (pg1\<lparr>validationMessages_display := Some ''block''\<rparr>, Inr False))
         else
           (case validationMessages_display pg of
              None \<Rightarrow> (pg, Inl TypeError)
            | Some d \<Rightarrow> (pg\<lparr>validationMessages_display := Some ''none''\<rparr>, Inr True)))"

subsection \<open>\<open>getFormData\<close> and \<open>populateForm\<close>\<close>

definition fieldNames :: "string list" where
  "fieldNames =
     [''financial_year'', ''age'', ''gross_salary'', ''basic_salary'',
      ''hra_received'', ''rent_paid'', ''lta_received'', ''other_exemptions'',
      ''deduction_80c'', ''deduction_80d'', ''deduction_80dd'', ''deduction_80e'',
      ''deduction_80tta'', ''home_loan_interest'', ''other_deductions'',
      ''other_income'', ''standard_deduction'', ''professional_tax'', ''tds'']"

text \<open>The value \<open>getFormData\<close> stores for one field name: read from the input with that
  name, or a default when the form has no such input.\<close>

definition field_entry :: "form_input list \<Rightarrow> string \<Rightarrow> jsval" where
  "field_entry doc fieldName =
     (case querySelector_name doc fieldName of
        Some field \<Rightarrow>
          if fieldName = ''financial_year'' then JString (input_value field)
          else if fieldName = ''age'' then
            (if falsy_num (parseInt (input_value field)) then JNull
             else JNumber (parseInt (input_value field)))
          else if fieldName = ''other_deductions'' \<or> fieldName = ''other_income'' then
            (if trim (input_value field) = [] then JNull
             else JNumber (or_zero (parseFloat (input_value field))))
          else JNumber (or_zero (parseFloat (input_value field)))
      | None \<Rightarrow>
          if fieldName = ''financial_year'' then JString ''2024-25''
          else if fieldName = ''age'' then JNull
          else JNumber (Num 0))"

definition invalid_session :: "string option \<Rightarrow> bool" where
  "invalid_session sid =
     (sid = None \<or> sid = Some [] \<or> sid = Some ''undefined'' \<or> sid = Some ''null'')"

text \<open>The object \<open>getFormData\<close> returns, as its properties in the order they are set.\<close>

definition getFormData :: "FinancialDataReview \<Rightarrow> (string \<times> jsval) list" where
  "getFormData pg =
     map (\<lambda>fieldName. (fieldName, field_entry (inputs pg) fieldName)) fieldNames
     @ (if \<not> invalid_session (review_sessionId pg)
        then [(''session_id'', JString (the (review_sessionId pg)))] else [])
     @ [(''status'', JString ''completed''), (''is_draft'', JBool False)]"

definition fieldMappings :: "(string \<times> string) list" where
  "fieldMappings =
     [(''financial_year'', ''financialYear''), (''age'', ''age''),
      (''gross_salary'', ''grossSalary''), (''basic_salary'', ''basicSalary''),
      (''hra_received'', ''hraReceived''), (''rent_paid'', ''rentPaid''),
      (''lta_received'', ''ltaReceived''), (''other_exemptions'', ''otherExemptions''),
      (''deduction_80c'', ''deduction80c''), (''deduction_80d'', ''deduction80d''),
      (''deduction_80dd'', ''deduction80dd''), (''deduction_80e'', ''deduction80e''),
      (''deduction_80tta'', ''deduction80tta''), (''home_loan_interest'', ''homeLoanInterest''),
      (''other_deductions'', ''otherDeductions''), (''other_income'', ''otherIncome''),
      (''standard_deduction'', ''standardDeduction''), (''professional_tax'', ''professionalTax''),
      (''tds'', ''tds'')]"

text \<open>
  The string an input's \<open>value\<close> holds after a value of the extracted data is assigned to
  it. How a number prints (\<open>Number.prototype.toString\<close>) is left as the parameter
  \<open>show\<close>; \<open>null\<close> becomes the empty string.
\<close>

definition value_string :: "(jsnum \<Rightarrow> string) \<Rightarrow> jsval \<Rightarrow> string" where
  "value_string show x =
     (case x of
        JNull \<Rightarrow> []
      | JBool b \<Rightarrow> (if b then ''true'' else ''false'')
      | JNumber n \<Rightarrow> show n
      | JString t \<Rightarrow> t)"

text \<open>The string \<open>populateForm\<close> assigns for a key of the extracted data: empty for a zero
  in one of the two optional fields.\<close>

definition populated_value :: "(jsnum \<Rightarrow> string) \<Rightarrow> string \<Rightarrow> jsval \<Rightarrow> string" where
  "populated_value show key x =
     (if (key = ''other_deductions'' \<or> key = ''other_income'') \<and> x = JNumber (Num 0) then []
      else value_string show x)"

text \<open>
  The body of the loop of \<open>populateForm\<close> for one field mapping. The mapping is skipped
  when the document has no element with the mapped id or the extracted data has no such
  key (\<open>undefined\<close>). Otherwise the value is assigned and the field validated; the result
  carries the exception of \<open>validateField\<close>, if it throws.
\<close>

definition populate_field ::
  "(jsnum \<Rightarrow> string) \<Rightarrow> (string \<Rightarrow> jsval option) \<Rightarrow> string \<times> string \<Rightarrow> form_input list
     \<Rightarrow> form_input list \<times> js_error option" where
  "populate_field show extractedData mapping doc =
     (case getElementById doc (snd mapping) of
        None \<Rightarrow> (doc, None)
      | Some field \<Rightarrow>
          (case extractedData (fst mapping) of
             None \<Rightarrow> (doc, None)
           | Some x \<Rightarrow>
               let f1 = field\<lparr>input_value := populated_value show (fst mapping) x\<rparr>;
                   doc1 = replace_input f1 doc;
                   f2 = fst (validateField doc1 f1)
               in (replace_input f2 doc1,
                   case snd (validateField doc1 f1) of Inl e \<Rightarrow> Some e | Inr ok \<Rightarrow> None)))"

text \<open>The loop itself: an exception ends it, and the document stays as changed so far.\<close>

fun populate_fields ::
  "(jsnum \<Rightarrow> string) \<Rightarrow> (string \<Rightarrow> jsval option) \<Rightarrow> (string \<times> string) list \<Rightarrow> form_input list
     \<Rightarrow> form_input list \<times> js_error option" where
  "populate_fields show extractedData [] doc = (doc, None)"
| "populate_fields show extractedData (mapping # rest) doc =
     (case populate_field show extractedData mapping doc of
        (doc1, Some e) \<Rightarrow> (doc1, Some e)
      | (doc1, None) \<Rightarrow> populate_fields show extractedData rest doc1)"

text \<open>\<open>populateForm\<close>; the extracted data is \<open>None\<close> when the page has none (a falsy
  \<open>extractedData\<close>).\<close>

definition populateForm ::
  "(jsnum \<Rightarrow> string) \<Rightarrow> (string \<Rightarrow> jsval option) option \<Rightarrow> FinancialDataReview
     \<Rightarrow> FinancialDataReview \<times> js_error option" where
  "populateForm show extractedData pg =
     (case extractedData of
        None \<Rightarrow> (pg, None)
      | Some d \<Rightarrow>
          (case populate_fields show d fieldMappings (inputs pg) of
             (doc, Some e) \<Rightarrow> (pg\<lparr>inputs := doc\<rparr>, Some e)
           | (doc, None) \<Rightarrow> updateFormValidation (pg\<lparr>inputs := doc\<rparr>)))"

subsection \<open>\<open>submitForm\<close>\<close>

text \<open>The \<open>catch\<close> block of \<open>submitForm\<close>.\<close>

definition submit_failed :: "FinancialDataReview \<Rightarrow> FinancialDataReview" where
  "submit_failed pg =
     pg\<lparr>effects := effects pg @ [ErrorNotification ''Failed to submit form. Please try again.'']\<rparr>"

text \<open>
  \<open>submitForm\<close>, with the server's reply to the POST as an argument (the \<open>session_id\<close> of
  its body, \<open>None\<close> when the body has none). The method returns when
  \<open>showValidationMessages\<close> returns \<open>false\<close>. With an invalid session id it calls
  \<open>this.showErrorMessage\<close> and schedules the return to the start page; the call throws
  when the class has no such method, and the \<open>catch\<close> block takes over. Otherwise the form
  data is posted; a reply that is \<open>ok\<close> stores the new session id and opens the results
  page, any other outcome ends in the \<open>catch\<close> block.
\<close>

definition submitForm :: "string option fetch_result \<Rightarrow> FinancialDataReview \<Rightarrow> FinancialDataReview" where
  "submitForm reply pg =
     (case showValidationMessages pg of
        (pg1, Inl e) \<Rightarrow> submit_failed pg1
      | (pg1, Inr shown_ok) \<Rightarrow>
          if \<not> shown_ok then pg1
          else if invalid_session (review_sessionId pg1) then
            (if ''showErrorMessage'' \<in> set FinancialDataReview_methods then
               pg1\<lparr>effects := effects pg1 @
                      [ErrorNotification ''Session expired. Please start over from the upload page.'',
                       NavigateAfter 2000 ''/'']\<rparr>
             else submit_failed pg1)
          else
            (let pg2 = pg1\<lparr>effects := effects pg1 @ [Post ''/api/submit-financials'' (getFormData pg1)]\<rparr>
             in case reply of
                  Rejected \<Rightarrow> submit_failed pg2
                | Response ok result_session_id \<Rightarrow>
                    if ok then
                      pg2\<lparr>review_sessionId := result_session_id,
                          effects := effects pg2 @
                            [SessionStored (case result_session_id of
                                              None \<Rightarrow> ''undefined'' | Some sid \<Rightarrow> sid),
                             Navigate ''/tax-results'']\<rparr>
                    else submit_failed pg2))"

text \<open>The POSTs to \<open>/api/submit-financials\<close> among the page's effects.\<close>

definition submissions :: "FinancialDataReview \<Rightarrow> page_effect list" where
  "submissions pg =
     filter (\<lambda>e. case e of Post url body \<Rightarrow> url = ''/api/submit-financials'' | _ \<Rightarrow> False)
       (effects pg)"

subsection \<open>The event handlers of the page\<close>

text \<open>
  A submit of the form by the user. The constructor registers one listener on the form's
  \<open>submit\<close> event, which calls \<open>submitForm\<close> and is its only caller; the browser
  submits a form through its submit button only while that button is not disabled, which
  is what \<open>updateFormValidation\<close> switches.
\<close>

definition form_submit :: "string option fetch_result \<Rightarrow> FinancialDataReview \<Rightarrow> FinancialDataReview" where
  "form_submit reply pg =
     (if submitButton_disabled pg = Some True then pg else submitForm reply pg)"

text \<open>The user changes the value of the input at a position of the document; nothing else
  happens when the input has no listener.\<close>

definition edit_value :: "nat \<Rightarrow> string \<Rightarrow> FinancialDataReview \<Rightarrow> FinancialDataReview" where
  "edit_value i v pg =
     (if i < length (inputs pg)
      then pg\<lparr>inputs := (inputs pg)[i := (inputs pg ! i)\<lparr>input_value := v\<rparr>]\<rparr>
      else pg)"

text \<open>
  The \<open>input\<close> and \<open>blur\<close> listeners of \<open>addInputValidation\<close>, run after the user has
  changed the value of the input at a position: \<open>validateField\<close> on that input, then
  \<open>updateFormValidation\<close>. An exception of \<open>validateField\<close> ends the listener.
\<close>

definition on_input :: "nat \<Rightarrow> string \<Rightarrow> FinancialDataReview \<Rightarrow> FinancialDataReview \<times> js_error option" where
  "on_input i v pg =
     (if i < length (inputs pg) then
        let doc = inputs (edit_value i v pg);
            validated = validateField doc (doc ! i);
            pg1 = pg\<lparr>inputs := doc[i := fst validated]\<rparr>
        in case snd validated of
             Inl e \<Rightarrow> (pg1, Some e)
           | Inr ok \<Rightarrow> updateFormValidation pg1
      else (pg, None))"






text \<open>
  The page as the browser hands it to the constructor. Its HTML is not among the sources;
  it is taken to have the submit button that \<open>updateFormValidation\<close> looks up, a form
  field around every input, the element \<open>grossSalary\<close>, and no class \<open>error\<close> on any input
  or form field yet.
\<close>

definition well_formed_document :: "form_input list \<Rightarrow> bool" where
  "well_formed_document doc =
     (list_all (\<lambda>e. formField e \<noteq> None) doc \<and> getElementById doc ''grossSalary'' \<noteq> None)"

definition page_loaded :: "FinancialDataReview \<Rightarrow> bool" where
  "page_loaded pg =
     (well_formed_document (inputs pg) \<and> submitButton_disabled pg \<noteq> None
      \<and> list_all (\<lambda>e. ''error'' \<notin> set (input_classes e)) (inputs pg)
      \<and> errorFields (inputs pg) = [])"


text \<open>A form state carries a validation error when an input or a form field has the class
  \<open>error\<close>.\<close>

definition carries_validation_error :: "FinancialDataReview \<Rightarrow> bool" where
  "carries_validation_error pg =
     (list_ex (\<lambda>e. ''error'' \<in> set (input_classes e)) (inputs pg) \<or> errorFields (inputs pg) \<noteq> [])"




subsection \<open>The constraints \<open>validateField\<close> is compared with\<close>

text \<open>The number \<open>validateField\<close> works with: \<open>parseFloat(field.value) || 0\<close>.\<close>

definition field_number :: "form_input \<Rightarrow> jsnum" where
  "field_number field = or_zero (parseFloat (input_value field))"

text \<open>
  The range constraints the data model declares, as the specification lists them: an age
  outside 18 to 100, a basic salary above the gross salary (the value of the element
  \<open>grossSalary\<close>), and a deduction above its cap.
\<close>

definition declared_range_violation :: "form_input list \<Rightarrow> form_input \<Rightarrow> bool" where
  "declared_range_violation doc field =
     (let v = field_number field; n = input_name field
      in (n = ''age'' \<and> (js_lt v (Num 18) \<or> js_gt v (Num 100)))
         \<or> (n = ''basic_salary'' \<and>
              (case getElementById doc ''grossSalary'' of
                 None \<Rightarrow> False
               | Some g \<Rightarrow> js_gt v (field_number g)))
         \<or> (n = ''deduction_80c'' \<and> js_gt v (Num 150000))
         \<or> (n = ''deduction_80d'' \<and> js_gt v (Num 25000))
         \<or> (n = ''deduction_80dd'' \<and> js_gt v (Num 125000))
         \<or> (n = ''deduction_80e'' \<and> js_gt v (Num 40000))
         \<or> (n = ''deduction_80tta'' \<and> js_gt v (Num 10000))
         \<or> (n = ''home_loan_interest'' \<and> js_gt v (Num 200000)))"

text \<open>The declared constraints together with the two further checks of the form: the
  format of the financial year and the lower bound on the gross salary.\<close>

definition validateField_violation :: "form_input list \<Rightarrow> form_input \<Rightarrow> bool" where
  "validateField_violation doc field =
     (declared_range_violation doc field
      \<or> (input_name field = ''financial_year'' \<and> \<not> fyPattern_test (input_value field))
      \<or> (input_name field = ''gross_salary'' \<and> js_lt (field_number field) (Num 300000)))"

subsection \<open>Sample forms\<close>

definition plain_help :: help_text where
  "plain_help = \<lparr> textContent = ''Enter the amount'', color = [] \<rparr>"

text \<open>An input inside a form field with a help text, and one inside a form field without.\<close>

definition sample_input :: "string \<Rightarrow> string \<Rightarrow> string \<Rightarrow> form_input" where
  "sample_input i n v =
     \<lparr> input_id = i, input_name = n, input_value = v, input_classes = [],
       formField = Some \<lparr> field_classes = [''form-field''], field_help = Some plain_help \<rparr> \<rparr>"

definition sample_input_without_help :: "string \<Rightarrow> string \<Rightarrow> string \<Rightarrow> form_input" where
  "sample_input_without_help i n v =
     \<lparr> input_id = i, input_name = n, input_value = v, input_classes = [],
       formField = Some \<lparr> field_classes = [''form-field''], field_help = None \<rparr> \<rparr>"

definition sample_form :: "string \<Rightarrow> form_input \<Rightarrow> form_input list" where
  "sample_form a g =
     [sample_input ''financialYear'' ''financial_year'' ''2024-25'',
      sample_input ''age'' ''age'' a,
      g,
      sample_input ''basicSalary'' ''basic_salary'' ''60000'',
      sample_input ''deduction80c'' ''deduction_80c'' ''150000'',
      sample_input ''otherDeductions'' ''other_deductions'' [],
      sample_input ''otherIncome'' ''other_income'' ''12000'']"

text \<open>The document after every input has been validated, as the input handlers do.\<close>

definition validate_all :: "form_input list \<Rightarrow> form_input list" where
  "validate_all doc = map (\<lambda>f. fst (validateField doc f)) doc"

definition sample_page :: "form_input list \<Rightarrow> string option \<Rightarrow> FinancialDataReview" where
  "sample_page doc sid =
     \<lparr> review_sessionId = sid, inputs = doc, submitButton_disabled = Some False,
       validationMessages_display = Some ''none'', validationList_items = Some [],
       effects = [] \<rparr>"

definition gross_input :: "string \<Rightarrow> form_input" where
  "gross_input v = sample_input ''grossSalary'' ''gross_salary'' v"

text \<open>The page as loaded, with a given gross salary input; the same page after the user has
  entered a gross salary of 100000; a page whose fields are all valid; a page with an
  empty age.\<close>

definition fresh_page :: "form_input \<Rightarrow> FinancialDataReview" where
  "fresh_page g = sample_page (sample_form ''30'' g) (Some ''s-1'')"

definition low_gross_entered :: "form_input \<Rightarrow> FinancialDataReview" where
  "low_gross_entered g = fst (on_input 2 ''100000'' (fresh_page g))"

definition valid_page :: "string option \<Rightarrow> FinancialDataReview" where
  "valid_page sid =
     sample_page (validate_all (sample_form ''30'' (gross_input ''1200000''))) sid"

definition empty_age_page :: FinancialDataReview where
  "empty_age_page = sample_page (sample_form [] (gross_input ''1200000'')) (Some ''s-1'')"

definition zero_other_income :: "string \<Rightarrow> jsval option" where
  "zero_other_income = [''other_income'' \<mapsto> JNumber (Num 0), ''age'' \<mapsto> JNumber (Num 41)]"

section \<open>Tax engine and draft store (server side)\<close>

text \<open>
  The repository's sources contain the schema of the two tables (create_tables.sql) and
  the pages that call the server, but not the server's code. The definitions of this
  section follow the specification's component design instead.
\<close>

subsection \<open>Financial profile\<close>

text \<open>Modelled from the spec: the FinancialProfile of the data model. Amounts are exact
  rationals, the two nullable amounts are options.\<close>

record FinancialProfile =
  financial_year :: string
  age :: int
  gross_salary :: rat
  basic_salary :: rat
  hra_received :: rat
  rent_paid :: rat
  lta_received :: rat
  other_exemptions :: rat
  deduction_80c :: rat
  deduction_80d :: rat
  deduction_80dd :: rat
  deduction_80e :: rat
  deduction_80tta :: rat
  home_loan_interest :: rat
  other_deductions :: "rat option"
  other_income :: "rat option"
  standard_deduction :: rat
  professional_tax :: rat
  tds :: rat

text \<open>Modelled from the spec: the invariant of the data model, that is the caps on the
  deductions, the basic salary within the gross salary, the age between 18 and 100.\<close>

definition valid_profile :: "FinancialProfile \<Rightarrow> bool" where
  "valid_profile p =
     (basic_salary p \<le> gross_salary p \<and> 18 \<le> age p \<and> age p \<le> 100 \<and>
      deduction_80c p \<le> 150000 \<and> deduction_80d p \<le> 25000 \<and> deduction_80dd p \<le> 125000 \<and>
      deduction_80e p \<le> 40000 \<and> deduction_80tta p \<le> 10000 \<and> home_loan_interest p \<le> 200000)"

subsection \<open>Tax rule tables\<close>

datatype regime = Old | New

text \<open>
  Modelled from the spec: the Tax Rule Tables, whose constants the specification leaves
  to the configuration of the financial year. A regime's rules are its slabs, each a lower
  bound with the marginal rate charged above it, the taxable income below which the
  rebate applies, and the largest rebate granted.
\<close>

record regime_rules =
  slabs :: "(rat \<times> rat) list"
  rebate_threshold :: rat
  rebate_limit :: rat

definition valid_rules :: "regime_rules \<Rightarrow> bool" where
  "valid_rules r = (list_all (\<lambda>(lower, rate). 0 \<le> rate) (slabs r) \<and> 0 \<le> rebate_limit r)"

subsection \<open>Regime Calculator\<close>

text \<open>
  Modelled from the spec: slab-wise tax. Each slab charges its rate on the part of the
  income between its lower bound and the next slab's lower bound; the last slab has no
  upper bound.
\<close>

fun slab_tax :: "(rat \<times> rat) list \<Rightarrow> rat \<Rightarrow> rat" where
  "slab_tax [] income = 0"
| "slab_tax [(lower, rate)] income = rate * max 0 (income - lower)"
| "slab_tax ((lower, rate) # (upper, rate') # rest) income =
     rate * max 0 (min income upper - lower) + slab_tax ((upper, rate') # rest) income"

text \<open>
  Modelled from the spec: the HRA exemption of the old regime, the least of the HRA
  received, the rent paid less 10% of the basic salary, and 50% (metropolitan city) or
  40% of the basic salary.
\<close>

definition hra_exemption :: "bool \<Rightarrow> FinancialProfile \<Rightarrow> rat" where
  "hra_exemption metro p =
     min (hra_received p)
       (min (rent_paid p - basic_salary p / 10)
            ((if metro then 1 / 2 else 2 / 5) * basic_salary p))"

text \<open>Modelled from the spec: the old regime's deductions under 80C, 80D, 80DD, 80E, 80TTA
  and for home-loan interest, each capped as the data model says.\<close>

definition capped_deductions :: "FinancialProfile \<Rightarrow> rat" where
  "capped_deductions p =
     min (deduction_80c p) 150000 + min (deduction_80d p) 25000 + min (deduction_80dd p) 125000
     + min (deduction_80e p) 40000 + min (deduction_80tta p) 10000
     + min (home_loan_interest p) 200000"

text \<open>Modelled from the spec: the gross total income of the calculator's output, the gross
  salary together with the other income when there is one.\<close>

definition gross_total_income :: "FinancialProfile \<Rightarrow> rat" where
  "gross_total_income p = gross_salary p + (case other_income p of None \<Rightarrow> 0 | Some x \<Rightarrow> x)"

text \<open>Modelled from the spec: what each regime subtracts. The old regime subtracts the HRA
  exemption, the standard deduction, the capped deductions and the professional tax; the
  new regime only the standard deduction and the professional tax.\<close>

fun total_deductions :: "regime \<Rightarrow> bool \<Rightarrow> FinancialProfile \<Rightarrow> rat" where
  "total_deductions Old metro p =
     hra_exemption metro p + standard_deduction p + capped_deductions p + professional_tax p"
| "total_deductions New metro p = standard_deduction p + professional_tax p"

text \<open>Modelled from the spec: the output of the Regime Calculator. \<open>tax_amount\<close> is the
  slab-wise tax, \<open>tax_after_rebate\<close> the tax the cess is charged on.\<close>

record regime_result =
  result_gross_total_income :: rat
  result_deductions :: rat
  taxable_income :: rat
  tax_amount :: rat
  tax_after_rebate :: rat
  cess_amount :: rat
  total_tax :: rat

text \<open>Modelled from the spec: the rebate is granted when the taxable income is below the
  configured threshold, up to the configured limit and never beyond the tax itself.\<close>

definition apply_rebate :: "regime_rules \<Rightarrow> rat \<Rightarrow> rat \<Rightarrow> rat" where
  "apply_rebate r taxable tax =
     (if taxable < rebate_threshold r then tax - min tax (rebate_limit r) else tax)"

text \<open>
  Modelled from the spec: the Regime Calculator. The tables give the rules of each regime;
  the city class, which the HRA rule needs, comes with the profile. The cess is 4% of the
  tax after the rebate, and the total tax is that tax plus the cess.
\<close>

definition regime_calculator ::
  "(regime \<Rightarrow> regime_rules) \<Rightarrow> regime \<Rightarrow> bool \<Rightarrow> FinancialProfile \<Rightarrow> regime_result" where
  "regime_calculator tables g metro p =
     (let rules = tables g;
          deductions = total_deductions g metro p;
          taxable = gross_total_income p - deductions;
          tax = slab_tax (slabs rules) taxable;
          after = apply_rebate rules taxable tax;
          cess = 4 / 100 * after
      in \<lparr> result_gross_total_income = gross_total_income p,
           result_deductions = deductions,
           taxable_income = taxable,
           tax_amount = tax,
           tax_after_rebate = after,
           cess_amount = cess,
           total_tax = after + cess \<rparr>)"

subsection \<open>Comparator\<close>

text \<open>The comparison with the columns of the table TaxComparison (create_tables.sql) that
  the Comparator fills; \<open>best_regime\<close> is one of the strings \<open>old\<close> and \<open>new\<close>, as the
  table's check constraint demands.\<close>

record comparison =
  tax_old_regime :: rat
  tax_new_regime :: rat
  best_regime :: string
  tax_savings :: rat

text \<open>
  Modelled from the spec: the Comparator, without its recommendation list (the
  specification gives the recommendation rules by example only). The best regime is the
  one with the lower total tax; when the two are equal it is the new regime.
\<close>

definition comparator :: "regime_result \<Rightarrow> regime_result \<Rightarrow> comparison" where
  "comparator old_result new_result =
     \<lparr> tax_old_regime = total_tax old_result,
       tax_new_regime = total_tax new_result,
       best_regime = (if total_tax old_result < total_tax new_result then ''old'' else ''new''),
       tax_savings = \<bar>total_tax old_result - total_tax new_result\<bar> \<rparr>"

subsection \<open>Session and draft store\<close>

text \<open>Modelled from the spec: the Session of the data model. It owns one financial
  profile and belongs to the user that \<open>list_drafts\<close> is asked for; time stamps are
  integers (seconds), the expiry is nullable as in the table UserFinancials.\<close>

record session =
  session_id :: string
  user_id :: string
  profile :: FinancialProfile
  status :: string
  is_draft :: bool
  draft_expires_at :: "int option"
  created_at :: int

text \<open>Modelled from the spec: a draft has expired when its expiry lies in the past.\<close>

definition expired :: "int \<Rightarrow> session \<Rightarrow> bool" where
  "expired now s = (case draft_expires_at s of None \<Rightarrow> False | Some t \<Rightarrow> t < now)"

text \<open>
  Modelled from the spec: \<open>list_drafts(user_id)\<close> of the Session/Draft Store, evaluated at
  the time \<open>now\<close> over the stored sessions: the user's drafts that have not expired, the
  most recently created first.
\<close>

definition list_drafts :: "int \<Rightarrow> string \<Rightarrow> session list \<Rightarrow> session list" where
  "list_drafts now uid store =
     rev (sort_key created_at
            (filter (\<lambda>s. user_id s = uid \<and> is_draft s \<and> \<not> expired now s) store))"

text \<open>Sample data: slabs and a profile in the shape of the specification's example, and a
  small store.\<close>

definition sample_tables :: "regime \<Rightarrow> regime_rules" where
  "sample_tables g =
     (case g of
        Old \<Rightarrow> \<lparr> slabs = [(250000, 5 / 100), (500000, 20 / 100), (1000000, 30 / 100)],
                 rebate_threshold = 500000, rebate_limit = 12500 \<rparr>
      | New \<Rightarrow> \<lparr> slabs = [(300000, 5 / 100), (700000, 10 / 100), (1000000, 15 / 100),
                          (1200000, 20 / 100), (1500000, 30 / 100)],
                 rebate_threshold = 700000, rebate_limit = 25000 \<rparr>)"

definition sample_profile :: FinancialProfile where
  "sample_profile =
     \<lparr> financial_year = ''2024-25'', age = 30, gross_salary = 1200000, basic_salary = 600000,
       hra_received = 240000, rent_paid = 300000, lta_received = 0, other_exemptions = 0,
       deduction_80c = 150000, deduction_80d = 25000, deduction_80dd = 0, deduction_80e = 0,
       deduction_80tta = 0, home_loan_interest = 0, other_deductions = None,
       other_income = None, standard_deduction = 50000, professional_tax = 0, tds = 0 \<rparr>"

definition sample_session :: "string \<Rightarrow> bool \<Rightarrow> int option \<Rightarrow> int \<Rightarrow> session" where
  "sample_session sid d e c =
     \<lparr> session_id = sid, user_id = ''u1'', profile = sample_profile,
       status = (if d then ''draft'' else ''completed''), is_draft = d,
       draft_expires_at = e, created_at = c \<rparr>"

definition sample_store :: "session list" where
  "sample_store =
     [sample_session ''a'' True (Some 50) 10,
      sample_session ''b'' True (Some 200) 20,
      sample_session ''c'' False None 30,
      sample_session ''d'' True None 40,
      sample_session ''e'' True (Some 150) 5]"

section \<open>Properties of the uploader\<close>

lemma validateFile_accepts:
  "maxFileSize u = 10485760 \<Longrightarrow> fst (validateFile u f) = is_pdf_within_limit f"
  by (auto simp: validateFile_def is_pdf_within_limit_def)

lemma uploader_inv_constructor: "uploader_inv DocumentUploader_constructor"
  by (simp add: uploader_inv_def DocumentUploader_constructor_def)

lemma uploader_inv_processFiles:
  assumes "uploader_inv u"
  shows "uploader_inv (processFiles files u)"
proof -
  from assms have sz: "maxFileSize u = 10485760" and mf: "maxFiles u = 4"
    and len: "length (uploadedFiles u) \<le> (if documentType u = ''salary_slip_multiple'' then 4 else 1)"
    and ok: "list_all is_pdf_within_limit (uploadedFiles u)"
    by (simp_all add: uploader_inv_def)
  have valid: "list_all is_pdf_within_limit (filter (\<lambda>f. fst (validateFile u f)) files)"
    by (simp add: list_all_iff validateFile_accepts [OF sz])
  show ?thesis
  proof (cases "isClearingFiles u")
    case True
    then show ?thesis using assms by (simp add: processFiles_def)
  next
    case False
    show ?thesis
    proof (cases "documentType u = ''salary_slip_multiple''")
      case True
      with False sz mf ok valid show ?thesis
        by (auto simp: processFiles_def uploader_inv_def Let_def list_all_iff
            dest: in_set_takeD)
    next
      case single: False
      have "list_all is_pdf_within_limit (take 1 (filter (\<lambda>f. fst (validateFile u f)) files))"
        using valid by (auto simp: list_all_iff dest: in_set_takeD)
      with False single sz mf show ?thesis
        by (simp add: processFiles_def uploader_inv_def Let_def)
    qed
  qed
qed

lemma uploader_inv_removeFile: "uploader_inv u \<Longrightarrow> uploader_inv (removeFile i u)"
  by (auto simp: uploader_inv_def removeFile_def list_all_iff
      dest: in_set_takeD in_set_dropD)

lemma uploader_inv_clear:
  "uploader_inv u \<Longrightarrow> uploader_inv (clearSingleFile u)"
  "uploader_inv u \<Longrightarrow> uploader_inv (clearFiles u)"
  "uploader_inv u \<Longrightarrow> uploader_inv (clearFiles_timeout u)"
  "uploader_inv u \<Longrightarrow> uploader_inv (documentTypeChange v u)"
  by (simp_all add: uploader_inv_def clearSingleFile_def clearFiles_def
      clearFiles_timeout_def documentTypeChange_def)

lemma uploader_reachable_inv: "uploader_reachable u \<Longrightarrow> uploader_inv u"
  by (induction rule: uploader_reachable.induct)
     (simp_all add: uploader_inv_constructor uploader_inv_processFiles
        uploader_inv_removeFile uploader_inv_clear)

text \<open>
  C10. After every call to \<open>processFiles\<close> on an uploader the page can be in, the list
  \<open>uploadedFiles\<close> holds at most 4 files in multiple-document mode and at most 1 file in
  any other mode, and every file in it has a MIME type containing \<open>pdf\<close> and a size of
  at most 10485760 bytes.
\<close>

theorem processFiles_bounds:
  assumes "uploader_reachable u"
  shows "length (uploadedFiles (processFiles files u))
           \<le> (if documentType (processFiles files u) = ''salary_slip_multiple'' then 4 else 1)
         \<and> (\<forall>f \<in> set (uploadedFiles (processFiles files u)).
               str_includes (file_type f) ''pdf'' \<and> file_size f \<le> 10485760)"
proof -
  have "uploader_inv (processFiles files u)"
    using assms by (intro uploader_inv_processFiles uploader_reachable_inv)
  then show ?thesis
    by (simp add: uploader_inv_def list_all_iff is_pdf_within_limit_def)
qed

theorem processFiles_bounds_witness:
  "uploader_reachable multiple_mode_uploader
   \<and> documentType (processFiles sample_uploads multiple_mode_uploader) = ''salary_slip_multiple''
   \<and> length (uploadedFiles (processFiles sample_uploads multiple_mode_uploader)) = 4
   \<and> map file_name (uploadedFiles (processFiles sample_uploads multiple_mode_uploader))
       = [''jan.pdf'', ''feb.pdf'', ''mar.pdf'', ''apr.pdf'']
   \<and> list_all (\<lambda>f. str_includes (file_type f) ''pdf'' \<and> file_size f \<le> 10485760)
         (uploadedFiles (processFiles sample_uploads multiple_mode_uploader))"
proof -
  have r: "uploader_reachable multiple_mode_uploader"
    unfolding multiple_mode_uploader_def
    by (intro uploader_reachable.timeout uploader_reachable.type_changed
        uploader_reachable.constructed)
  have e: "uploadedFiles (processFiles sample_uploads multiple_mode_uploader)
        = [sample_upload ''jan.pdf'' ''application/pdf'' 1000,
           sample_upload ''feb.pdf'' ''application/pdf'' 10485760,
           sample_upload ''mar.pdf'' ''application/pdf'' 3000,
           sample_upload ''apr.pdf'' ''application/x-pdf'' 4000]"
    by (simp add: processFiles_def multiple_mode_uploader_def sample_uploads_def
        sample_upload_def validateFile_def clearFiles_timeout_def documentTypeChange_def
        clearFiles_def DocumentUploader_constructor_def)
  have t: "documentType (processFiles sample_uploads multiple_mode_uploader) = ''salary_slip_multiple''"
    by (simp add: processFiles_def multiple_mode_uploader_def Let_def
        clearFiles_timeout_def documentTypeChange_def clearFiles_def)
  from processFiles_bounds [OF r, of sample_uploads] r e t show ?thesis
    by (simp add: sample_upload_def list_all_iff)
qed

section \<open>Properties of the AI advisor\<close>

lemma submitUserResponse_maxRounds: "maxRounds (submitUserResponse t reply a) = maxRounds a"
  by (simp add: submitUserResponse_def split: fetch_result.splits)

lemma submitUserResponse_accepted:
  "accepted a t (Response ok d) \<Longrightarrow> currentRound (submitUserResponse t (Response ok d) a) = round d"
  by (simp add: submitUserResponse_def)

lemma submitUserResponse_not_accepted:
  "\<not> accepted a t reply \<Longrightarrow> currentRound (submitUserResponse t reply a) = currentRound a"
  by (cases reply) (auto simp: submitUserResponse_def)

lemma submitUserResponse_bound:
  assumes "follows_rounds a reply" and "currentRound a \<le> maxRounds a"
  shows "currentRound (submitUserResponse t reply a) \<le> maxRounds a"
proof (cases "accepted a t reply")
  case True
  then obtain ok d where r: "reply = Response ok d" by (cases reply) auto
  with True assms(1) have "round d \<le> maxRounds a" by simp
  with True r show ?thesis by (simp add: submitUserResponse_accepted)
next
  case False
  with assms(2) show ?thesis by (simp add: submitUserResponse_not_accepted)
qed

lemma conversation_bound:
  "service_follows_rounds a evs \<Longrightarrow> currentRound a \<le> maxRounds a \<Longrightarrow> maxRounds a = 4 \<Longrightarrow>
     currentRound (conversation a evs) \<le> 4 \<and> maxRounds (conversation a evs) = 4"
proof (induction a evs rule: conversation.induct)
  case (1 a)
  then show ?case by simp
next
  case (2 a t reply rest)
  from 2(2) have f: "follows_rounds a reply"
    and r: "service_follows_rounds (submitUserResponse t reply a) rest" by simp_all
  have "currentRound (submitUserResponse t reply a) \<le> maxRounds (submitUserResponse t reply a)"
    using submitUserResponse_bound [OF f 2(3)] by (simp add: submitUserResponse_maxRounds)
  moreover have "maxRounds (submitUserResponse t reply a) = 4"
    using 2(4) by (simp add: submitUserResponse_maxRounds)
  ultimately show ?case using 2(1) [OF r] by simp
qed

text \<open>
  C1, as the claim states it, fails: the controller stores whatever round number the
  service returns. After a conversation has started at round 1 (with \<open>maxRounds = 4\<close>), an
  accepted response whose reply carries round 7 leaves the counter at 7, which exceeds 4
  and is not the previous round plus 1.
\<close>

theorem submitUserResponse_round_counterexample:
  "accepted started_advisor ''yes'' (next_question 7)
   \<and> currentRound started_advisor = 1
   \<and> maxRounds (submitUserResponse ''yes'' (next_question 7) started_advisor) = 4
   \<and> currentRound (submitUserResponse ''yes'' (next_question 7) started_advisor) = 7
   \<and> \<not> currentRound (submitUserResponse ''yes'' (next_question 7) started_advisor) \<le> 4
   \<and> currentRound (submitUserResponse ''yes'' (next_question 7) started_advisor)
       \<noteq> currentRound started_advisor + 1"
  by (simp add: started_advisor_def AIAdvisor_constructor_def startConversation_def
      AIAdvisor_fields_def next_question_def submitUserResponse_def trim_def is_js_space_def)

text \<open>
  C1, amended. After each accepted user response the controller's current-round counter
  equals the round number in the service's reply, and after any other call it is
  unchanged; \<open>maxRounds\<close> stays 4. In every conversation in which the service follows the
  rounds, started with the counter within 4, the counter never exceeds 4 and every accepted
  response raises it by exactly 1.
\<close>

theorem conversation_rounds:
  assumes "maxRounds a = 4" and "currentRound a \<le> 4" and "service_follows_rounds a evs"
  shows "currentRound (conversation a evs) \<le> 4
         \<and> maxRounds (conversation a evs) = 4
         \<and> (\<forall>t ok d. accepted (conversation a evs) t (Response ok d) \<longrightarrow>
               currentRound (submitUserResponse t (Response ok d) (conversation a evs)) = round d)
         \<and> (\<forall>t reply. accepted (conversation a evs) t reply \<longrightarrow>
               follows_rounds (conversation a evs) reply \<longrightarrow>
               currentRound (submitUserResponse t reply (conversation a evs))
                 = currentRound (conversation a evs) + 1)
         \<and> (\<forall>t reply. \<not> accepted (conversation a evs) t reply \<longrightarrow>
               currentRound (submitUserResponse t reply (conversation a evs))
                 = currentRound (conversation a evs))"
proof -
  have b: "currentRound (conversation a evs) \<le> 4 \<and> maxRounds (conversation a evs) = 4"
    using conversation_bound [OF assms(3)] assms(1,2) by simp
  have step: "currentRound (submitUserResponse t reply s) = currentRound s + 1"
    if "accepted s t reply" and "follows_rounds s reply" for s t reply
  proof -
    from that(1) obtain ok d where r: "reply = Response ok d" by (cases reply) auto
    with that show ?thesis by (simp add: submitUserResponse_accepted)
  qed
  show ?thesis
    using b step by (simp add: submitUserResponse_accepted submitUserResponse_not_accepted)
qed

theorem conversation_rounds_witness:
  "maxRounds started_advisor = 4 \<and> currentRound started_advisor \<le> 4
   \<and> service_follows_rounds started_advisor
        [(''a'', next_question 2), (''  '', next_question 3), (''b'', next_question 3),
         (''c'', next_question 4)]
   \<and> currentRound (conversation started_advisor
        [(''a'', next_question 2), (''  '', next_question 3), (''b'', next_question 3),
         (''c'', next_question 4)]) = 4
   \<and> accepted (conversation started_advisor [(''a'', next_question 2)]) ''b'' (next_question 3)
   \<and> currentRound (submitUserResponse ''b'' (next_question 3)
        (conversation started_advisor [(''a'', next_question 2)])) = 2 + 1
   \<and> \<not> accepted (conversation started_advisor [(''a'', next_question 2)]) ''b'' final_reply
   \<and> currentRound (submitUserResponse ''b'' final_reply
        (conversation started_advisor [(''a'', next_question 2)])) = 2"
proof -
  have m: "maxRounds started_advisor = 4" and c: "currentRound started_advisor \<le> 4"
    by (simp_all add: started_advisor_def AIAdvisor_constructor_def startConversation_def
        AIAdvisor_fields_def)
  have s: "service_follows_rounds started_advisor
        [(''a'', next_question 2), (''  '', next_question 3), (''b'', next_question 3),
         (''c'', next_question 4)]"
    by (simp add: started_advisor_def AIAdvisor_constructor_def startConversation_def
        AIAdvisor_fields_def next_question_def submitUserResponse_def trim_def is_js_space_def)
  have s1: "service_follows_rounds started_advisor [(''a'', next_question 2)]"
    by (simp add: started_advisor_def AIAdvisor_constructor_def startConversation_def
        AIAdvisor_fields_def next_question_def)
  show ?thesis
    using conversation_rounds [OF m c s] conversation_rounds [OF m c s1] m c s
    by (simp add: started_advisor_def AIAdvisor_constructor_def startConversation_def
        AIAdvisor_fields_def next_question_def final_reply_def submitUserResponse_def
        trim_def is_js_space_def)
qed

section \<open>Properties of the tax engine and the draft store\<close>

lemma slab_tax_nonneg: "list_all (\<lambda>(lower, rate). 0 \<le> rate) sl \<Longrightarrow> 0 \<le> slab_tax sl income"
  by (induction sl income rule: slab_tax.induct) simp_all

lemma apply_rebate_nonneg: "0 \<le> tax \<Longrightarrow> 0 \<le> apply_rebate r taxable tax"
  by (simp add: apply_rebate_def)

text \<open>
  C3. For every financial profile (valid or not), either regime and either city class,
  when the regime's rules have no negative rate and no negative rebate limit, the total tax
  of the Regime Calculator is at least 0, its cess is exactly 4% of the tax after the
  rebate, and the total is that tax plus the cess.
\<close>

theorem regime_calculator_total_and_cess:
  assumes "valid_rules (tables g)"
  shows "0 \<le> total_tax (regime_calculator tables g metro p)
         \<and> cess_amount (regime_calculator tables g metro p)
             = 4 / 100 * tax_after_rebate (regime_calculator tables g metro p)
         \<and> tax_after_rebate (regime_calculator tables g metro p)
             = apply_rebate (tables g) (taxable_income (regime_calculator tables g metro p))
                 (tax_amount (regime_calculator tables g metro p))
         \<and> total_tax (regime_calculator tables g metro p)
             = tax_after_rebate (regime_calculator tables g metro p)
               + cess_amount (regime_calculator tables g metro p)"
proof -
  let ?taxable = "gross_total_income p - total_deductions g metro p"
  from assms have "0 \<le> slab_tax (slabs (tables g)) ?taxable"
    by (simp add: valid_rules_def slab_tax_nonneg)
  then have "0 \<le> apply_rebate (tables g) ?taxable (slab_tax (slabs (tables g)) ?taxable)"
    by (rule apply_rebate_nonneg)
  then show ?thesis
    by (simp add: regime_calculator_def Let_def)
qed

theorem regime_calculator_total_and_cess_witness:
  "valid_rules (sample_tables Old) \<and> valid_profile sample_profile
   \<and> taxable_income (regime_calculator sample_tables Old True sample_profile) = 735000
   \<and> tax_after_rebate (regime_calculator sample_tables Old True sample_profile) = 59500
   \<and> cess_amount (regime_calculator sample_tables Old True sample_profile) = 2380
   \<and> total_tax (regime_calculator sample_tables Old True sample_profile) = 61880
   \<and> 0 \<le> total_tax (regime_calculator sample_tables Old True sample_profile)"
proof -
  have v: "valid_rules (sample_tables Old)"
    by (simp add: valid_rules_def sample_tables_def)
  show ?thesis
    using regime_calculator_total_and_cess [of sample_tables Old True sample_profile, OF v] v
    by (simp add: regime_calculator_def sample_tables_def sample_profile_def valid_profile_def
        hra_exemption_def capped_deductions_def gross_total_income_def apply_rebate_def Let_def)
qed

text \<open>
  C2. For every pair of Regime Calculator results given to the Comparator, the best
  regime is the one whose total tax is strictly lower, and it is \<open>new\<close> when the two
  totals are equal.
\<close>

theorem comparator_best_regime:
  "(total_tax old_result < total_tax new_result \<longrightarrow>
      best_regime (comparator old_result new_result) = ''old'')
   \<and> (total_tax new_result < total_tax old_result \<longrightarrow>
      best_regime (comparator old_result new_result) = ''new'')
   \<and> (total_tax old_result = total_tax new_result \<longrightarrow>
      best_regime (comparator old_result new_result) = ''new'')"
  by (simp add: comparator_def)

theorem comparator_best_regime_witness:
  "total_tax (regime_calculator sample_tables Old True sample_profile)
     < total_tax (regime_calculator sample_tables New True sample_profile)
   \<and> best_regime (comparator (regime_calculator sample_tables Old True sample_profile)
                             (regime_calculator sample_tables New True sample_profile)) = ''old''
   \<and> best_regime (comparator (regime_calculator sample_tables Old True sample_profile)
                             (regime_calculator sample_tables Old True sample_profile)) = ''new''
   \<and> best_regime (comparator (regime_calculator sample_tables New True sample_profile)
                             (regime_calculator sample_tables Old True sample_profile)) = ''new''"
proof -
  have lt: "total_tax (regime_calculator sample_tables Old True sample_profile)
              < total_tax (regime_calculator sample_tables New True sample_profile)"
    by (simp add: regime_calculator_def sample_tables_def sample_profile_def
        hra_exemption_def capped_deductions_def gross_total_income_def apply_rebate_def Let_def)
  show ?thesis
    using lt
      comparator_best_regime [of "regime_calculator sample_tables Old True sample_profile"
        "regime_calculator sample_tables New True sample_profile"]
      comparator_best_regime [of "regime_calculator sample_tables Old True sample_profile"
        "regime_calculator sample_tables Old True sample_profile"]
      comparator_best_regime [of "regime_calculator sample_tables New True sample_profile"
        "regime_calculator sample_tables Old True sample_profile"]
    by simp
qed

lemma sorted_wrt_rev_sort_key:
  "sorted_wrt (\<lambda>a b. f b \<le> f a) (rev (sort_key f xs))"
proof -
  have "sorted (map f (sort_key f xs))" by (rule sorted_sort_key)
  then have "sorted_wrt (\<lambda>a b. f a \<le> f b) (sort_key f xs)"
    by (simp add: sorted_wrt_map)
  then show ?thesis by (simp add: sorted_wrt_rev)
qed

text \<open>
  C6. A draft whose \<open>draft_expires_at\<close> lies before the time at which \<open>list_drafts\<close> is
  evaluated does not appear in its output, and the drafts returned are ordered by creation
  time, the most recent first.
\<close>

theorem list_drafts_unexpired_recent_first:
  "(\<forall>s t. draft_expires_at s = Some t \<and> t < now \<longrightarrow> s \<notin> set (list_drafts now uid store))
   \<and> sorted_wrt (\<lambda>a b. created_at b \<le> created_at a) (list_drafts now uid store)"
proof
  show "\<forall>s t. draft_expires_at s = Some t \<and> t < now \<longrightarrow> s \<notin> set (list_drafts now uid store)"
    by (auto simp: list_drafts_def expired_def)
  show "sorted_wrt (\<lambda>a b. created_at b \<le> created_at a) (list_drafts now uid store)"
    unfolding list_drafts_def by (rule sorted_wrt_rev_sort_key)
qed

theorem list_drafts_unexpired_recent_first_witness:
  "draft_expires_at (sample_session ''a'' True (Some 50) 10) = Some 50 \<and> (50::int) < 100
   \<and> sample_session ''a'' True (Some 50) 10 \<in> set sample_store
   \<and> sample_session ''a'' True (Some 50) 10 \<notin> set (list_drafts 100 ''u1'' sample_store)
   \<and> map session_id (list_drafts 100 ''u1'' sample_store) = [''d'', ''b'', ''e'']
   \<and> sorted_wrt (\<lambda>a b. created_at b \<le> created_at a) (list_drafts 100 ''u1'' sample_store)"
proof -
  have m: "map session_id (list_drafts 100 ''u1'' sample_store) = [''d'', ''b'', ''e'']"
    by (simp add: list_drafts_def sample_store_def sample_session_def expired_def)
  have i: "sample_session ''a'' True (Some 50) 10 \<in> set sample_store"
    by (simp add: sample_store_def)
  show ?thesis
    using list_drafts_unexpired_recent_first [of 100 "''u1''" sample_store] m i
    by (simp add: sample_session_def)
qed

section \<open>Properties of the review form\<close>

lemma classes_after_remove_add:
  "''error'' \<in> set (classList_add ''error'' cs)"
  "''success'' \<in> set (classList_add ''success'' cs)"
  "''error'' \<notin> set (classList_add ''success'' (classList_remove [''error'', ''success''] cs))"
  "''success'' \<notin> set (classList_add ''error'' (classList_remove [''error'', ''success''] cs))"
  "''error'' \<notin> set (classList_remove [''error'', ''success''] cs)"
  "''success'' \<notin> set (classList_remove [''error'', ''success''] cs)"
  by (auto simp: classList_add_def classList_remove_def)

lemma validateField_classes:
  "field_rule doc (input_name field) (input_value field) (or_zero (parseFloat (input_value field))) = Inr (ok, msg) \<Longrightarrow>
   (''error'' \<in> set (input_classes (fst (validateField doc field))) \<longleftrightarrow> \<not> ok)
   \<and> (''success'' \<in> set (input_classes (fst (validateField doc field))) \<longleftrightarrow> ok)"
  by (auto simp: validateField_def Let_def add_class_def classes_after_remove_add split: option.splits)



lemma field_rule_violation:
  assumes "input_name field = ''basic_salary'' \<longrightarrow> getElementById doc ''grossSalary'' \<noteq> None"
  shows "\<exists>msg. field_rule doc (input_name field) (input_value field)
                 (or_zero (parseFloat (input_value field)))
               = Inr (\<not> validateField_violation doc field, msg)"
  using assms
  by (auto simp: field_rule_def validateField_violation_def declared_range_violation_def
      field_number_def Let_def split: option.splits)

text \<open>
  C4, amended. For every field, in a document that has the element \<open>grossSalary\<close> when
  the field is the basic salary, \<open>validateField\<close> marks the field as an error exactly when
  it violates its declared range constraint (age outside 18 to 100, basic salary above the
  gross salary, a deduction above its cap), or is a financial year not of the form YYYY-YY,
  or is a gross salary below 300000; otherwise it marks the field as a success.
\<close>

theorem validateField_marks_error_iff:
  assumes "input_name field = ''basic_salary'' \<longrightarrow> getElementById doc ''grossSalary'' \<noteq> None"
  shows "(''error'' \<in> set (input_classes (fst (validateField doc field)))
            \<longleftrightarrow> validateField_violation doc field)
         \<and> (''success'' \<in> set (input_classes (fst (validateField doc field)))
            \<longleftrightarrow> \<not> validateField_violation doc field)"
proof -
  from field_rule_violation [OF assms] obtain msg where
    "field_rule doc (input_name field) (input_value field)
       (or_zero (parseFloat (input_value field)))
     = Inr (\<not> validateField_violation doc field, msg)" ..
  from validateField_classes [OF this] show ?thesis by simp
qed


lemma parse_empty: "parseFloat [] = NaN" "parseInt [] = NaN"
  by (simp_all add: parseFloat_def parseInt_def trim_start_def split_sign_def)

lemma getFormData_lookup:
  assumes "fieldName \<in> set fieldNames"
  shows "map_of (getFormData pg) fieldName = Some (field_entry (inputs pg) fieldName)"
proof -
  have "map_of (map (\<lambda>n. (n, field_entry (inputs pg) n)) fieldNames) fieldName
          = Some (field_entry (inputs pg) fieldName)"
    using assms by (simp add: map_of_map_restrict)
  then show ?thesis
    by (simp add: getFormData_def map_add_Some_iff)
qed

lemma field_entry_cases:
  assumes "querySelector_name doc fieldName = Some field"
  shows "(input_value field = [] \<longrightarrow>
            (field_entry doc fieldName = JNull
               \<longleftrightarrow> fieldName \<in> {''age'', ''other_deductions'', ''other_income''}))
         \<and> (fieldName \<in> {''other_deductions'', ''other_income''} \<longrightarrow>
              (trim (input_value field) = [] \<longrightarrow> field_entry doc fieldName = JNull)
              \<and> (trim (input_value field) \<noteq> [] \<longrightarrow>
                   field_entry doc fieldName = JNumber (or_zero (parseFloat (input_value field)))))
         \<and> (fieldName = ''age'' \<longrightarrow>
              (parseInt (input_value field) = NaN \<or> parseInt (input_value field) = Num 0
                 \<longrightarrow> field_entry doc fieldName = JNull))
         \<and> (fieldName \<notin> {''financial_year'', ''age'', ''other_deductions'', ''other_income''} \<longrightarrow>
              field_entry doc fieldName = JNumber (or_zero (parseFloat (input_value field))))"
  using assms
  by (auto simp: field_entry_def parse_empty falsy_num_def trim_def)

lemma or_zero_NaN: "or_zero NaN = Num 0"
  by (simp add: or_zero_def falsy_num_def)

lemma getElementById_id: "getElementById doc i = Some f \<Longrightarrow> input_id f = i"
  by (auto simp: getElementById_def find_Some_iff)

lemma getElementById_replace:
  "getElementById (replace_input f doc) i
     = (if i = input_id f \<and> getElementById doc i \<noteq> None then Some f else getElementById doc i)"
  by (induction doc) (auto simp: getElementById_def)

lemma validateField_keeps:
  "input_id (fst (validateField doc f)) = input_id f"
  "input_value (fst (validateField doc f)) = input_value f"
  by (auto simp: validateField_def Let_def add_class_def split: sum.splits option.splits prod.splits)

lemma populate_field_other_id:
  "fid \<noteq> snd m \<Longrightarrow> getElementById (fst (populate_field sh d m doc)) fid = getElementById doc fid"
  by (auto simp: populate_field_def Let_def getElementById_replace validateField_keeps
      split: option.splits dest: getElementById_id)

lemma populate_field_sets:
  "getElementById doc (snd m) = Some f \<Longrightarrow> d (fst m) = Some x \<Longrightarrow>
     \<exists>f'. getElementById (fst (populate_field sh d m doc)) (snd m) = Some f'
          \<and> input_value f' = populated_value sh (fst m) x"
  by (auto simp: populate_field_def Let_def getElementById_replace validateField_keeps
      dest: getElementById_id)

lemma populate_fields_other_id:
  "fid \<notin> snd ` set maps \<Longrightarrow>
     getElementById (fst (populate_fields sh d maps doc)) fid = getElementById doc fid"
proof (induction maps arbitrary: doc)
  case Nil
  then show ?case by simp
next
  case (Cons m rest)
  obtain doc1 r where p: "populate_field sh d m doc = (doc1, r)" by (cases "populate_field sh d m doc")
  from Cons.prems have ne: "fid \<noteq> snd m" and rest: "fid \<notin> snd ` set rest" by auto
  have k: "getElementById doc1 fid = getElementById doc fid"
    using populate_field_other_id [OF ne, of sh d doc] p by simp
  show ?case
  proof (cases r)
    case None
    with p k Cons.IH [OF rest, of doc1] show ?thesis by simp
  next
    case (Some e)
    with p k show ?thesis by simp
  qed
qed

lemma populate_fields_sets:
  "distinct (map snd maps) \<Longrightarrow> m \<in> set maps \<Longrightarrow> snd (populate_fields sh d maps doc) = None \<Longrightarrow>
   getElementById doc (snd m) = Some f \<Longrightarrow> d (fst m) = Some x \<Longrightarrow>
     \<exists>f'. getElementById (fst (populate_fields sh d maps doc)) (snd m) = Some f'
          \<and> input_value f' = populated_value sh (fst m) x"
proof (induction maps arbitrary: doc f)
  case Nil
  then show ?case by simp
next
  case (Cons m0 rest)
  obtain doc1 r where p: "populate_field sh d m0 doc = (doc1, r)" by (cases "populate_field sh d m0 doc")
  from Cons.prems(3) p have r: "r = None" by (cases r) simp_all
  from Cons.prems(3) p r have ok: "snd (populate_fields sh d rest doc1) = None" by simp
  have res: "populate_fields sh d (m0 # rest) doc = populate_fields sh d rest doc1"
    using p r by simp
  from Cons.prems(1) have dr: "distinct (map snd rest)" and nr: "snd m0 \<notin> snd ` set rest" by auto
  show ?case
  proof (cases "m = m0")
    case True
    from populate_field_sets [where sh = sh and d = d and m = m and doc = doc and f = f and x = x]
      Cons.prems(4,5) True p
    obtain f' where f': "getElementById doc1 (snd m) = Some f'"
      "input_value f' = populated_value sh (fst m) x" by auto
    from nr True have "snd m \<notin> snd ` set rest" by simp
    from populate_fields_other_id [OF this, of sh d doc1] f' res show ?thesis by simp
  next
    case False
    with Cons.prems(2) have mr: "m \<in> set rest" by simp
    with nr have "snd m \<noteq> snd m0" by (metis imageI)
    from populate_field_other_id [OF this, of sh d doc] p Cons.prems(4)
    have "getElementById doc1 (snd m) = Some f" by simp
    from Cons.IH [OF dr mr ok this Cons.prems(5)] res show ?thesis by simp
  qed
qed

lemma populateForm_sets:
  assumes "populateForm sh (Some d) pg = (pg', None)" and "m \<in> set fieldMappings"
    and "getElementById (inputs pg) (snd m) = Some f" and "d (fst m) = Some x"
  shows "\<exists>f'. getElementById (inputs pg') (snd m) = Some f'
              \<and> input_value f' = populated_value sh (fst m) x"
proof -
  obtain doc r where p: "populate_fields sh d fieldMappings (inputs pg) = (doc, r)"
    by (cases "populate_fields sh d fieldMappings (inputs pg)")
  from assms(1) p have r: "r = None" and i: "inputs pg' = doc"
    by (auto simp: populateForm_def updateFormValidation_def Let_def split: option.splits)
  have dist: "distinct (map snd fieldMappings)" by (simp add: fieldMappings_def)
  from populate_fields_sets [where sh = sh and d = d and m = m and maps = fieldMappings
      and doc = "inputs pg" and f = f and x = x] dist assms(2,3,4) p r i
  show ?thesis by simp
qed

text \<open>
  C8, amended. For every input of the form that \<open>getFormData\<close> reads: an empty input is
  serialised as \<open>null\<close> exactly for the three fields \<open>age\<close>, \<open>other_deductions\<close> and
  \<open>other_income\<close>; the two optional fields give \<open>null\<close> for a blank input and 0 for a
  non-blank unparseable one; \<open>age\<close> gives \<open>null\<close> for an unparseable or zero input; every
  other numeric field gives 0 for an empty or unparseable input. When \<open>populateForm\<close>
  returns normally, a stored 0 for \<open>other_deductions\<close> or \<open>other_income\<close> is rendered as
  the empty string.
\<close>

theorem getFormData_null_and_zero:
  assumes "querySelector_name (inputs pg) fieldName = Some field" and "fieldName \<in> set fieldNames"
  shows "map_of (getFormData pg) fieldName = Some (field_entry (inputs pg) fieldName)
     \<and> (input_value field = [] \<longrightarrow>
          (field_entry (inputs pg) fieldName = JNull
             \<longleftrightarrow> fieldName \<in> {''age'', ''other_deductions'', ''other_income''}))
     \<and> (fieldName \<in> {''other_deductions'', ''other_income''} \<longrightarrow>
          (trim (input_value field) = [] \<longrightarrow> field_entry (inputs pg) fieldName = JNull)
          \<and> (trim (input_value field) \<noteq> [] \<and> parseFloat (input_value field) = NaN \<longrightarrow>
               field_entry (inputs pg) fieldName = JNumber (Num 0)))
     \<and> (fieldName = ''age'' \<longrightarrow>
          (parseInt (input_value field) = NaN \<or> parseInt (input_value field) = Num 0 \<longrightarrow>
             field_entry (inputs pg) fieldName = JNull))
     \<and> (fieldName \<notin> {''financial_year'', ''age'', ''other_deductions'', ''other_income''} \<longrightarrow>
          (input_value field = [] \<or> parseFloat (input_value field) = NaN \<longrightarrow>
             field_entry (inputs pg) fieldName = JNumber (Num 0)))
     \<and> (\<forall>show d pg2 m f. populateForm show (Some d) pg = (pg2, None)
            \<and> m \<in> {(''other_deductions'', ''otherDeductions''), (''other_income'', ''otherIncome'')}
            \<and> getElementById (inputs pg) (snd m) = Some f \<and> d (fst m) = Some (JNumber (Num 0))
          \<longrightarrow> (\<exists>f'. getElementById (inputs pg2) (snd m) = Some f' \<and> input_value f' = []))"
proof -
  note c = field_entry_cases [OF assms(1)]
  have pop: "\<exists>f'. getElementById (inputs pg2) (snd m) = Some f' \<and> input_value f' = []"
    if "populateForm sh (Some d) pg = (pg2, None)"
      and "m \<in> {(''other_deductions'', ''otherDeductions''), (''other_income'', ''otherIncome'')}"
      and "getElementById (inputs pg) (snd m) = Some f" and "d (fst m) = Some (JNumber (Num 0))"
    for sh d pg2 m f
  proof -
    from that(2) have m: "m \<in> set fieldMappings" and k: "populated_value sh (fst m) (JNumber (Num 0)) = []"
      by (auto simp: fieldMappings_def populated_value_def)
    from populateForm_sets [where sh = sh and d = d and m = m and pg = pg and pg' = pg2
      and f = f and x = "JNumber (Num 0)"] that(1,3,4) m k
    show ?thesis by simp
  qed
  have e: "input_value field = [] \<Longrightarrow> parseFloat (input_value field) = NaN"
    by (simp add: parse_empty)
  have 1: "map_of (getFormData pg) fieldName = Some (field_entry (inputs pg) fieldName)"
    by (rule getFormData_lookup [OF assms(2)])
  have 2: "input_value field = [] \<longrightarrow>
          (field_entry (inputs pg) fieldName = JNull
             \<longleftrightarrow> fieldName \<in> {''age'', ''other_deductions'', ''other_income''})"
    using c by (rule conjunct1)
  have 3: "fieldName \<in> {''other_deductions'', ''other_income''} \<longrightarrow>
          (trim (input_value field) = [] \<longrightarrow> field_entry (inputs pg) fieldName = JNull)
          \<and> (trim (input_value field) \<noteq> [] \<and> parseFloat (input_value field) = NaN \<longrightarrow>
               field_entry (inputs pg) fieldName = JNumber (Num 0))"
    using c [THEN conjunct2, THEN conjunct1] by (simp add: or_zero_NaN)
  have 4: "fieldName = ''age'' \<longrightarrow>
          (parseInt (input_value field) = NaN \<or> parseInt (input_value field) = Num 0 \<longrightarrow>
             field_entry (inputs pg) fieldName = JNull)"
    using c [THEN conjunct2, THEN conjunct2] by (rule conjunct1)
  have 5: "fieldName \<notin> {''financial_year'', ''age'', ''other_deductions'', ''other_income''} \<longrightarrow>
          (input_value field = [] \<or> parseFloat (input_value field) = NaN \<longrightarrow>
             field_entry (inputs pg) fieldName = JNumber (Num 0))"
    using c [THEN conjunct2, THEN conjunct2, THEN conjunct2] e by (auto simp: or_zero_NaN)
  have 6: "\<forall>show d pg2 m f. populateForm show (Some d) pg = (pg2, None)
            \<and> m \<in> {(''other_deductions'', ''otherDeductions''), (''other_income'', ''otherIncome'')}
            \<and> getElementById (inputs pg) (snd m) = Some f \<and> d (fst m) = Some (JNumber (Num 0))
          \<longrightarrow> (\<exists>f'. getElementById (inputs pg2) (snd m) = Some f' \<and> input_value f' = [])"
    using pop by blast
  from 1 2 3 4 5 6 show ?thesis by (intro conjI)
qed



lemma showValidationMessages_keeps:
  "review_sessionId (fst (showValidationMessages pg)) = review_sessionId pg"
  "effects (fst (showValidationMessages pg)) = effects pg"
  by (auto simp: showValidationMessages_def Let_def split: option.splits)

lemmas review_form_defs =
  sample_page_def validate_all_def sample_form_def sample_input_def gross_input_def
  sample_input_without_help_def plain_help_def errorFields_def
  validateField_def field_rule_def add_class_def set_help_def classList_add_def
  classList_remove_def style_color_def parseFloat_def parseInt_def split_sign_def trim_start_def
  is_js_space_def is_digit_def is_hex_digit_def digits_value_def digit_value_def
  to_double_def bit_length.simps round_half_even_def pow2_def
  exponent_part_def or_zero_def falsy_num_def js_gt_def getElementById_def fyPattern_test_def
  submitForm_def showValidationMessages_def collect_errors_def querySelector_name_def trim_def
  invalid_session_def getFieldLabel_def submit_failed_def submissions_def field_number_def
  Let_def


text \<open>
  C4, as the claim states it, fails: a gross salary of 250000 violates none of the declared
  range constraints, and \<open>validateField\<close> marks it as an error, not as a success.
\<close>

theorem validateField_declared_ranges_counterexample:
  "input_name (gross_input ''250000'') = ''gross_salary''
   \<and> ''error'' \<in> set (input_classes
         (fst (validateField (sample_form ''30'' (gross_input ''250000'')) (gross_input ''250000''))))
   \<and> ''success'' \<notin> set (input_classes
         (fst (validateField (sample_form ''30'' (gross_input ''250000'')) (gross_input ''250000''))))
   \<and> \<not> declared_range_violation (sample_form ''30'' (gross_input ''250000''))
         (gross_input ''250000'')"
proof -
  have c: "input_classes
         (fst (validateField (sample_form ''30'' (gross_input ''250000'')) (gross_input ''250000'')))
       = [''error'']"
    by (simp add: review_form_defs)
  have d: "\<not> declared_range_violation (sample_form ''30'' (gross_input ''250000''))
         (gross_input ''250000'')"
    by (simp add: declared_range_violation_def gross_input_def sample_input_def)
  from c d show ?thesis by (simp add: gross_input_def sample_input_def)
qed

theorem validateField_marks_error_iff_witness:
  "input_name (sample_input ''basicSalary'' ''basic_salary'' ''1300000'') = ''basic_salary''
   \<and> getElementById (sample_form ''30'' (gross_input ''1200000'')) ''grossSalary''
       = Some (gross_input ''1200000'')
   \<and> validateField_violation (sample_form ''30'' (gross_input ''1200000''))
        (sample_input ''basicSalary'' ''basic_salary'' ''1300000'')
   \<and> ''error'' \<in> set (input_classes (fst (validateField (sample_form ''30'' (gross_input ''1200000''))
        (sample_input ''basicSalary'' ''basic_salary'' ''1300000''))))
   \<and> \<not> validateField_violation (sample_form ''30'' (gross_input ''1200000''))
        (sample_input ''basicSalary'' ''basic_salary'' ''1200000'')
   \<and> ''success'' \<in> set (input_classes (fst (validateField (sample_form ''30'' (gross_input ''1200000''))
        (sample_input ''basicSalary'' ''basic_salary'' ''1200000''))))"
proof -
  have g: "getElementById (sample_form ''30'' (gross_input ''1200000'')) ''grossSalary''
       = Some (gross_input ''1200000'')"
    by (simp add: getElementById_def sample_form_def sample_input_def gross_input_def)
  have v1: "validateField_violation (sample_form ''30'' (gross_input ''1200000''))
        (sample_input ''basicSalary'' ''basic_salary'' ''1300000'')"
    unfolding validateField_violation_def declared_range_violation_def g
    by (simp add: review_form_defs)
  have v2: "\<not> validateField_violation (sample_form ''30'' (gross_input ''1200000''))
        (sample_input ''basicSalary'' ''basic_salary'' ''1200000'')"
    unfolding validateField_violation_def declared_range_violation_def g
    by (simp add: review_form_defs)
  from validateField_marks_error_iff [of "sample_input ''basicSalary'' ''basic_salary'' ''1300000''"
      "sample_form ''30'' (gross_input ''1200000'')"]
    validateField_marks_error_iff [of "sample_input ''basicSalary'' ''basic_salary'' ''1200000''"
      "sample_form ''30'' (gross_input ''1200000'')"]
    g v1 v2
  show ?thesis by (simp add: sample_input_def)
qed

text \<open>
  C8, as the claim states it, fails: \<open>age\<close> is neither of the two optional fields, and an
  empty age is serialised as \<open>null\<close>, not as 0.
\<close>

theorem getFormData_null_fields_counterexample:
  "querySelector_name (inputs empty_age_page) ''age'' = Some (sample_input ''age'' ''age'' [])
   \<and> ''age'' \<in> set fieldNames
   \<and> ''age'' \<notin> {''other_deductions'', ''other_income''}
   \<and> map_of (getFormData empty_age_page) ''age'' = Some JNull
   \<and> map_of (getFormData empty_age_page) ''age'' \<noteq> Some (JNumber (Num 0))"
proof -
  have q: "querySelector_name (inputs empty_age_page) ''age'' = Some (sample_input ''age'' ''age'' [])"
    by (simp add: empty_age_page_def review_form_defs)
  have e: "field_entry (inputs empty_age_page) ''age'' = JNull"
    by (simp add: field_entry_def q parse_empty falsy_num_def sample_input_def)
  have m: "''age'' \<in> set fieldNames" by (simp add: fieldNames_def)
  from getFormData_lookup [OF m, of empty_age_page] q e m show ?thesis by simp
qed

theorem getFormData_null_and_zero_witness:
  "querySelector_name (inputs (valid_page None)) ''other_deductions''
     = Some (fst (validateField [] (sample_input ''otherDeductions'' ''other_deductions'' [])))
   \<and> ''other_deductions'' \<in> set fieldNames
   \<and> map_of (getFormData (valid_page None)) ''other_deductions'' = Some JNull
   \<and> snd (populateForm (\<lambda>n. ''41'') (Some zero_other_income) (valid_page None)) = None
   \<and> map_option input_value
        (getElementById (inputs (valid_page None)) ''otherIncome'') = Some ''12000''
   \<and> map_option input_value
        (getElementById
           (inputs (fst (populateForm (\<lambda>n. ''41'') (Some zero_other_income) (valid_page None))))
           ''otherIncome'') = Some []"
proof -
  have q: "querySelector_name (inputs (valid_page None)) ''other_deductions''
     = Some (fst (validateField [] (sample_input ''otherDeductions'' ''other_deductions'' [])))"
    by (simp add: valid_page_def review_form_defs)
  have v: "input_value (fst (validateField [] (sample_input ''otherDeductions'' ''other_deductions'' [])))
     = []"
    by (simp add: validateField_keeps sample_input_def)
  have m: "''other_deductions'' \<in> set fieldNames" by (simp add: fieldNames_def)
  have p: "snd (populateForm (\<lambda>n. ''41'') (Some zero_other_income) (valid_page None)) = None"
    by (simp add: populateForm_def populate_field_def fieldMappings_def zero_other_income_def
        populated_value_def value_string_def updateFormValidation_def
        valid_page_def review_form_defs split: prod.splits)
  have g: "map_option input_value (getElementById (inputs (valid_page None)) ''otherIncome'')
     = Some ''12000''"
    by (simp add: valid_page_def review_form_defs)
  then obtain f where f: "getElementById (inputs (valid_page None)) ''otherIncome'' = Some f"
    by auto
  have z: "zero_other_income ''other_income'' = Some (JNumber (Num 0))"
    by (simp add: zero_other_income_def)
  obtain pg2 where pg2: "populateForm (\<lambda>n. ''41'') (Some zero_other_income) (valid_page None) = (pg2, None)"
    using p by (cases "populateForm (\<lambda>n. ''41'') (Some zero_other_income) (valid_page None)") auto
  note t = getFormData_null_and_zero [OF q m]
  from t have "\<exists>f'. getElementById (inputs pg2) ''otherIncome'' = Some f' \<and> input_value f' = []"
    using pg2 f z
    by (elim conjE allE [of _ "\<lambda>n. ''41''"] allE [of _ zero_other_income] allE [of _ pg2]
        allE [of _ "(''other_income'', ''otherIncome'')"] allE [of _ f]) simp
  with t q v m p g pg2 show ?thesis by auto
qed

subsection \<open>The states the page can be in\<close>

lemma errorFields_nonempty_iff:
  "errorFields doc \<noteq> [] \<longleftrightarrow>
     (\<exists>e \<in> set doc. \<exists>ff. formField e = Some ff \<and> ''error'' \<in> set (field_classes ff))"
  by (induction doc) (auto simp: errorFields_def split: option.splits)

































lemmas page_event_defs =
  fresh_page_def low_gross_entered_def on_input_def edit_value_def updateFormValidation_def
  js_le.simps form_submit_def carries_validation_error_def page_loaded_def
  well_formed_document_def



text \<open>
  \<open>showValidationMessages\<close> counts the errors that are shown in a help text. For a form
  field in error without a help text, as on the first sample page above, the disabled
  submit button is what keeps the form from being sent.
\<close>

lemma on_input_gross_too_low:
  assumes "input_name field = ''gross_salary''"
    and "js_lt (or_zero (parseFloat (input_value field))) (Num 300000)"
    and "i < length (inputs pg)" and "inputs pg ! i = field"
    and "formField field \<noteq> None" and "submitButton_disabled pg \<noteq> None"
  shows "submitButton_disabled (fst (on_input i (input_value field) pg)) = Some True
         \<and> ''error'' \<in> set (input_classes (inputs (fst (on_input i (input_value field) pg)) ! i))"
proof -
  define f' where "f' = fst (validateField (inputs pg) field)"
  have doc: "inputs (edit_value i (input_value field) pg) = inputs pg"
    using assms(3,4) by (simp add: edit_value_def list_update_same_conv)
  have r: "field_rule (inputs pg) (input_name field) (input_value field)
             (or_zero (parseFloat (input_value field)))
           = Inr (False, ''Gross salary seems too low for salaried employee'')"
    using assms(1,2) by (simp add: field_rule_def)
  from assms(5) obtain ff0 where ff0: "formField field = Some ff0" by auto
  have v: "snd (validateField (inputs pg) field) = Inr False"
    using ff0 by (simp add: validateField_def r Let_def add_class_def)
  have e: "''error'' \<in> set (input_classes f')"
    using validateField_classes [OF r] by (simp add: f'_def)
  have "\<exists>ff. formField f' = Some ff \<and> ''error'' \<in> set (field_classes ff)"
    using ff0 by (simp add: f'_def validateField_def r Let_def add_class_def set_help_def
        classes_after_remove_add)
  then have ef: "errorFields ((inputs pg)[i := f']) \<noteq> []"
    using assms(3) by (auto simp: errorFields_nonempty_iff intro!: bexI [of _ f'] set_update_memI)
  from assms(6) obtain d where d: "submitButton_disabled pg = Some d" by auto
  have u: "updateFormValidation (pg\<lparr>inputs := (inputs pg)[i := f']\<rparr>)
             = (pg\<lparr>inputs := (inputs pg)[i := f'], submitButton_disabled := Some True\<rparr>, None)"
    using ef d by (simp add: updateFormValidation_def)
  have "on_input i (input_value field) pg
          = (pg\<lparr>inputs := (inputs pg)[i := f'], submitButton_disabled := Some True\<rparr>, None)"
    using assms(3,4) v u by (simp add: on_input_def doc Let_def f'_def)
  with e assms(3) show ?thesis by simp
qed

text \<open>
  C9. For every gross salary field whose number (\<open>parseFloat(field.value) || 0\<close>) is
  strictly below 300000, \<open>validateField\<close> marks the field as an error: the input gets the
  class \<open>error\<close> and not \<open>success\<close>, the call does not return \<open>true\<close>, and when the input
  has a form field, that carries the class \<open>error\<close> too and the call returns \<open>false\<close>.
  Such a profile cannot pass the form validation: on a page that has the submit button,
  the listener of an input that lies in a form field leaves the input in error and the
  submit button disabled, and a submit of the form changes nothing and sends nothing.
\<close>

theorem validateField_gross_salary_too_low:
  assumes "input_name field = ''gross_salary''"
    and "js_lt (or_zero (parseFloat (input_value field))) (Num 300000)"
  shows "''error'' \<in> set (input_classes (fst (validateField doc field)))
         \<and> ''success'' \<notin> set (input_classes (fst (validateField doc field)))
         \<and> snd (validateField doc field) \<noteq> Inr True
         \<and> (\<forall>ff. formField (fst (validateField doc field)) = Some ff \<longrightarrow>
               ''error'' \<in> set (field_classes ff) \<and> ''success'' \<notin> set (field_classes ff)
               \<and> snd (validateField doc field) = Inr False)
         \<and> (\<forall>pg i reply. i < length (inputs pg) \<and> inputs pg ! i = field
                \<and> formField field \<noteq> None \<and> submitButton_disabled pg \<noteq> None \<longrightarrow>
               ''error'' \<in> set (input_classes (inputs (fst (on_input i (input_value field) pg)) ! i))
               \<and> submitButton_disabled (fst (on_input i (input_value field) pg)) = Some True
               \<and> form_submit reply (fst (on_input i (input_value field) pg))
                   = fst (on_input i (input_value field) pg))"
proof -
  have r: "field_rule doc (input_name field) (input_value field)
             (or_zero (parseFloat (input_value field)))
           = Inr (False, ''Gross salary seems too low for salaried employee'')"
    using assms by (simp add: field_rule_def)
  have a: "''error'' \<in> set (input_classes (fst (validateField doc field)))
         \<and> ''success'' \<notin> set (input_classes (fst (validateField doc field)))
         \<and> snd (validateField doc field) \<noteq> Inr True
         \<and> (\<forall>ff. formField (fst (validateField doc field)) = Some ff \<longrightarrow>
               ''error'' \<in> set (field_classes ff) \<and> ''success'' \<notin> set (field_classes ff)
               \<and> snd (validateField doc field) = Inr False)"
    using validateField_classes [OF r]
    by (auto simp: validateField_def r Let_def add_class_def set_help_def classes_after_remove_add
        split: option.splits)
  have b: "''error'' \<in> set (input_classes (inputs (fst (on_input i (input_value field) pg)) ! i))
               \<and> submitButton_disabled (fst (on_input i (input_value field) pg)) = Some True
               \<and> form_submit reply (fst (on_input i (input_value field) pg))
                   = fst (on_input i (input_value field) pg)"
    if "i < length (inputs pg)" "inputs pg ! i = field" "formField field \<noteq> None"
      "submitButton_disabled pg \<noteq> None" for pg i reply
    using on_input_gross_too_low [OF assms that] by (simp add: form_submit_def)
  from a b show ?thesis by blast
qed

theorem validateField_gross_salary_too_low_witness:
  "input_name (gross_input ''250000'') = ''gross_salary''
   \<and> js_lt (or_zero (parseFloat (input_value (gross_input ''250000'')))) (Num 300000)
   \<and> input_classes (fst (validateField [] (gross_input ''250000''))) = [''error'']
   \<and> map_option field_classes (formField (fst (validateField [] (gross_input ''250000''))))
       = Some [''form-field'', ''error'']
   \<and> snd (validateField [] (gross_input ''250000'')) = Inr False
   \<and> inputs (fresh_page (gross_input ''250000'')) ! 2 = gross_input ''250000''
   \<and> submitButton_disabled (fresh_page (gross_input ''250000'')) = Some False
   \<and> submitButton_disabled (fst (on_input 2 ''250000'' (fresh_page (gross_input ''250000''))))
       = Some True
   \<and> effects (form_submit (Response True (Some ''s-2''))
        (fst (on_input 2 ''250000'' (fresh_page (gross_input ''250000''))))) = []"
proof -
  have n: "input_name (gross_input ''250000'') = ''gross_salary''"
    by (simp add: gross_input_def sample_input_def)
  have v: "input_value (gross_input ''250000'') = ''250000''"
    by (simp add: gross_input_def sample_input_def)
  have l: "js_lt (or_zero (parseFloat (input_value (gross_input ''250000'')))) (Num 300000)"
    by (simp add: review_form_defs)
  have c: "input_classes (fst (validateField [] (gross_input ''250000''))) = [''error'']"
    by (simp add: review_form_defs)
  have f: "map_option field_classes (formField (fst (validateField [] (gross_input ''250000''))))
       = Some [''form-field'', ''error'']"
    by (simp add: review_form_defs)
  have p: "inputs (fresh_page (gross_input ''250000'')) ! 2 = gross_input ''250000''"
    "length (inputs (fresh_page (gross_input ''250000''))) = 7"
    "submitButton_disabled (fresh_page (gross_input ''250000'')) = Some False"
    "effects (fresh_page (gross_input ''250000'')) = []"
    by (simp_all add: fresh_page_def sample_page_def sample_form_def)
  have g: "formField (gross_input ''250000'') \<noteq> None"
    by (simp add: gross_input_def sample_input_def)
  note t = validateField_gross_salary_too_low [OF n l, of "[]"]
  note t2 = t [THEN conjunct2, THEN conjunct2, THEN conjunct2, THEN conjunct1, rule_format]
  note t3 = t [THEN conjunct2, THEN conjunct2, THEN conjunct2, THEN conjunct2, rule_format,
      where pg = "fresh_page (gross_input ''250000'')" and i = 2
        and reply = "Response True (Some ''s-2'')"]
  from f obtain ff where "formField (fst (validateField [] (gross_input ''250000''))) = Some ff"
    by auto
  from t2 [OF this] have r: "snd (validateField [] (gross_input ''250000'')) = Inr False"
    by simp
  have h: "2 < length (inputs (fresh_page (gross_input ''250000'')))
      \<and> inputs (fresh_page (gross_input ''250000'')) ! 2 = gross_input ''250000''
      \<and> formField (gross_input ''250000'') \<noteq> None
      \<and> submitButton_disabled (fresh_page (gross_input ''250000'')) \<noteq> None"
    using p g by simp
  from t3 [OF h]
  have d: "submitButton_disabled (fst (on_input 2 ''250000'' (fresh_page (gross_input ''250000''))))
       = Some True"
    and s: "form_submit (Response True (Some ''s-2''))
        (fst (on_input 2 ''250000'' (fresh_page (gross_input ''250000''))))
        = fst (on_input 2 ''250000'' (fresh_page (gross_input ''250000'')))"
    unfolding v by simp_all
  have e: "effects (fst (on_input 2 ''250000'' (fresh_page (gross_input ''250000'')))) = []"
    by (simp add: page_event_defs review_form_defs)
  show ?thesis
    unfolding s e using n l c f r p(1,3) d by (intro conjI) simp_all
qed

subsection \<open>Submitting without a session\<close>

lemma FinancialDataReview_has_no_showErrorMessage:
  "''showErrorMessage'' \<notin> set FinancialDataReview_methods"
  by (simp add: FinancialDataReview_methods_def)

text \<open>With an invalid session id \<open>submitForm\<close> never posts and never changes the session id,
  and it returns after the validation messages when the form does not pass them.\<close>

lemma submitForm_invalid_session:
  assumes "invalid_session (review_sessionId pg)"
  shows "submissions (submitForm reply pg) = submissions pg
         \<and> review_sessionId (submitForm reply pg) = review_sessionId pg
         \<and> (snd (showValidationMessages pg) = Inr False \<longrightarrow>
              effects (submitForm reply pg) = effects pg)"
proof -
  obtain pg1 r where s: "showValidationMessages pg = (pg1, r)"
    by (cases "showValidationMessages pg")
  from showValidationMessages_keeps [of pg] s
  have k: "review_sessionId pg1 = review_sessionId pg" "effects pg1 = effects pg" by simp_all
  show ?thesis
  proof (cases r)
    case (Inl e)
    with s k show ?thesis
      by (simp add: submitForm_def submit_failed_def submissions_def)
  next
    case (Inr ok)
    with s k assms show ?thesis
      by (simp add: submitForm_def submit_failed_def submissions_def)
  qed
qed

text \<open>
  C7. On a form that passes \<open>showValidationMessages\<close>, with the stored session id
  \<open>null\<close>, \<open>submitForm\<close> posts nothing, but it neither shows the session error nor
  schedules the return to the start page: the call of \<open>this.showErrorMessage\<close> throws,
  since the class defines no such method (the class \<open>TaxResults\<close> of the results page
  does), and the \<open>catch\<close> block shows the general failure message instead.
\<close>

theorem submitForm_session_check_throws:
  "invalid_session (review_sessionId (valid_page None))
   \<and> snd (showValidationMessages (valid_page None)) = Inr True
   \<and> ''showErrorMessage'' \<notin> set FinancialDataReview_methods
   \<and> effects (submitForm reply (valid_page None))
       = [ErrorNotification ''Failed to submit form. Please try again.'']
   \<and> NavigateAfter 2000 ''/'' \<notin> set (effects (submitForm reply (valid_page None)))"
proof -
  have e: "effects (submitForm reply (valid_page None))
       = [ErrorNotification ''Failed to submit form. Please try again.'']"
    by (simp add: valid_page_def FinancialDataReview_has_no_showErrorMessage review_form_defs)
  have i: "invalid_session (review_sessionId (valid_page None))"
    by (simp add: valid_page_def sample_page_def invalid_session_def)
  have v: "snd (showValidationMessages (valid_page None)) = Inr True"
    by (simp add: valid_page_def review_form_defs)
  show ?thesis
    unfolding e using i v FinancialDataReview_has_no_showErrorMessage by simp
qed

end
